theory Spec2Isabelle
  imports Complex_Main "HOL-Library.Word"
begin

section \<open>Buffers, strings and configuration\<close>

text \<open>
  The module embedded here is the safe backup module (\<open>backup-safe.ts\<close>, imported under
  that name by the backup scheduler). A Node \<open>Buffer\<close> is a list of bytes. A JavaScript
  string is a sequence of UTF-16 code units; that representation is kept for the
  encryption key, where the source pads and cuts by code units and then encodes to bytes.
  Object keys, URLs and messages are only concatenated and compared, so they are HOL
  strings.
\<close>

type_synonym buffer = "8 word list"
type_synonym jsstring = "16 word list"

definition ascii :: "string \<Rightarrow> buffer" where
  "ascii s = map of_char s"

definition js :: "string \<Rightarrow> jsstring" where
  "js s = map of_char s"

text \<open>\<open>String.prototype.padEnd(n, fill)\<close> for a one-unit filler and \<open>slice(0, n)\<close>.\<close>

definition padEnd :: "nat \<Rightarrow> 16 word \<Rightarrow> jsstring \<Rightarrow> jsstring" where
  "padEnd n c s = s @ replicate (n - length s) c"

definition slice0 :: "nat \<Rightarrow> 'a list \<Rightarrow> 'a list" where
  "slice0 n s = take n s"

text \<open>
  \<open>Buffer.from(string)\<close> encodes UTF-8: one byte below U+0080, two below U+0800, four for
  a surrogate pair, three otherwise; a lone surrogate becomes U+FFFD (EF BF BD).
\<close>

definition is_high_surrogate :: "16 word \<Rightarrow> bool" where
  "is_high_surrogate u = (0xD800 \<le> u \<and> u \<le> 0xDBFF)"

definition is_low_surrogate :: "16 word \<Rightarrow> bool" where
  "is_low_surrogate u = (0xDC00 \<le> u \<and> u \<le> 0xDFFF)"

definition utf8_codepoint :: "nat \<Rightarrow> buffer" where
  "utf8_codepoint c =
     (if c < 0x80 then [of_nat c]
      else if c < 0x800 then [of_nat (0xC0 + c div 64), of_nat (0x80 + c mod 64)]
      else if c < 0x10000 then
        [of_nat (0xE0 + c div 4096), of_nat (0x80 + (c div 64) mod 64), of_nat (0x80 + c mod 64)]
      else
        [of_nat (0xF0 + c div 262144), of_nat (0x80 + (c div 4096) mod 64),
         of_nat (0x80 + (c div 64) mod 64), of_nat (0x80 + c mod 64)])"

fun buffer_from :: "jsstring \<Rightarrow> buffer" where
  "buffer_from [] = []"
| "buffer_from [u] =
     (if is_high_surrogate u \<or> is_low_surrogate u then [0xEF, 0xBF, 0xBD]
      else utf8_codepoint (unat u))"
| "buffer_from (u # v # rest) =
     (if is_high_surrogate u \<and> is_low_surrogate v then
        utf8_codepoint (0x10000 + (unat u - 0xD800) * 1024 + (unat v - 0xDC00)) @ buffer_from rest
      else if is_high_surrogate u \<or> is_low_surrogate u then
        [0xEF, 0xBF, 0xBD] @ buffer_from (v # rest)
      else utf8_codepoint (unat u) @ buffer_from (v # rest))"

text \<open>
  The environment file is read by \<open>readEnvFile\<close>, which is not part of the module: the
  values it yields are a parameter. \<open>STORE_DIR\<close> comes from the configuration module.
\<close>

record config =
  BACKUP_KEY :: "jsstring option"
  BLOB_READ_WRITE_TOKEN :: "string option"
  STORE_DIR :: string

definition BACKUP_PREFIX :: string where
  "BACKUP_PREFIX = ''nanoclaw-backup''"

definition default_key :: jsstring where
  "default_key = js ''nanoclaw-backup-key-32-chars!''"

text \<open>
  \<open>getBackupKey\<close>: \<open>env.BACKUP_KEY?.padEnd(32, '0').slice(0, 32) || default\<close>. The
  optional chain yields undefined for an absent key; \<open>||\<close> falls through on undefined and
  on the empty string.
\<close>

definition getBackupKey :: "config \<Rightarrow> buffer" where
  "getBackupKey env =
     buffer_from
       (case map_option (\<lambda>k. slice0 32 (padEnd 32 (of_char CHR ''0'') k)) (BACKUP_KEY env) of
          None \<Rightarrow> default_key
        | Some s \<Rightarrow> if s = [] then default_key else s)"

text \<open>\<open>getBlobToken\<close>: \<open>env.BLOB_READ_WRITE_TOKEN || ''\<close>.\<close>

definition getBlobToken :: "config \<Rightarrow> string" where
  "getBlobToken env = (case BLOB_READ_WRITE_TOKEN env of None \<Rightarrow> [] | Some t \<Rightarrow> t)"

section \<open>External libraries\<close>

text \<open>
  Node's \<open>crypto\<close> and \<open>zlib\<close>, the SQLite engine and \<open>JSON\<close> are not code of the module.
  Their operations are parameters:
  \<^item> \<open>aes_gcm_encrypt key iv plain\<close> is \<open>createCipheriv('aes-256-gcm', key, iv)\<close> followed by
    \<open>update\<close>, \<open>final\<close> and \<open>getAuthTag\<close>: the ciphertext and the tag, or \<open>None\<close> when the
    library throws;
  \<^item> \<open>aes_gcm_decrypt key iv tag data\<close> is \<open>createDecipheriv\<close>, \<open>setAuthTag\<close>, \<open>update\<close>,
    \<open>final\<close>: the plaintext, or \<open>None\<close> when any of them throws;
  \<^item> \<open>sha256_hex\<close> is the hex digest; \<open>gzip9\<close> and \<open>gunzip\<close> are the zlib streams run to
    their end (\<open>None\<close>: the stream emitted an error);
  \<^item> \<open>vacuum_into\<close> is \<open>VACUUM INTO\<close> on the opened live database, given the bytes
    of the live file: the bytes of the snapshot file, or \<open>None\<close> when the engine throws;
  \<^item> \<open>json_stringify\<close> and \<open>json_parse\<close> carry the metadata record to and from its
    stored text (\<open>None\<close>: the body is not JSON; \<open>Some None\<close>: it parses to a falsy value).
\<close>

record BackupMetadata =
  version :: string
  timestamp :: string
  size :: nat
  checksum :: string
  sqliteVersion :: string

record extlib =
  aes_gcm_encrypt :: "buffer \<Rightarrow> buffer \<Rightarrow> buffer \<Rightarrow> (buffer \<times> buffer) option"
  aes_gcm_decrypt :: "buffer \<Rightarrow> buffer \<Rightarrow> buffer \<Rightarrow> buffer \<Rightarrow> buffer option"
  sha256_hex :: "buffer \<Rightarrow> string"
  gzip9 :: "buffer \<Rightarrow> buffer"
  gunzip :: "buffer \<Rightarrow> buffer option"
  vacuum_into :: "buffer \<Rightarrow> buffer option"
  json_stringify :: "BackupMetadata \<Rightarrow> buffer"
  json_parse :: "buffer \<Rightarrow> BackupMetadata option option"

datatype error =
    TokenNotConfigured
  | NoBackupFound
  | BackupNotFound string
  | ChecksumMismatch
  | InvalidSQLiteFormat
  | CipherError
  | GunzipError
  | CaptureError
  | JsonError
  | NetworkError
  | FsError

section \<open>Encryption and decryption\<close>

text \<open>
  \<open>encrypt\<close> draws a 16-byte nonce from \<open>randomBytes\<close> (a parameter, \<open>iv\<close>) and returns
  \<open>iv || authTag || ciphertext\<close>. \<open>decrypt\<close> cuts the input with \<open>Buffer.slice\<close>, which
  clamps to the length of the buffer as \<open>take\<close> and \<open>drop\<close> do, and checks no length.
\<close>

definition encrypt :: "extlib \<Rightarrow> config \<Rightarrow> buffer \<Rightarrow> buffer \<Rightarrow> error + buffer" where
  "encrypt lib env iv buf =
     (case aes_gcm_encrypt lib (getBackupKey env) iv buf of
        None \<Rightarrow> Inl CipherError
      | Some (encrypted, authTag) \<Rightarrow> Inr (iv @ authTag @ encrypted))"

definition decrypt :: "extlib \<Rightarrow> config \<Rightarrow> buffer \<Rightarrow> error + buffer" where
  "decrypt lib env encrypted =
     (let iv = take 16 encrypted;
          authTag = take 16 (drop 16 encrypted);
          data = drop 32 encrypted
      in case aes_gcm_decrypt lib (getBackupKey env) iv authTag data of
           None \<Rightarrow> Inl CipherError
         | Some plain \<Rightarrow> Inr plain)"

section \<open>Clock, calendar and decimal text\<close>

text \<open>
  A time value is a count of milliseconds since the epoch, as \<open>Date.now()\<close> and
  \<open>getTime()\<close> give it. The calendar functions follow the language standard: the day
  number is the floor of the time value over the milliseconds of a day, day 0 was a
  Thursday, and year, month and day of the month come from the day number in the
  proleptic Gregorian calendar. \<open>getDay\<close> and \<open>getDate\<close> read local time: the time
  value plus the offset of the process's time zone at that instant, a parameter.
\<close>

definition msPerDay :: int where
  "msPerDay = 1000 * 60 * 60 * 24"

definition Day :: "int \<Rightarrow> int" where
  "Day t = t div msPerDay"

definition WeekDay :: "int \<Rightarrow> int" where
  "WeekDay t = (Day t + 4) mod 7"

definition civil_from_days :: "int \<Rightarrow> int \<times> int \<times> int" where
  "civil_from_days z =
     (let z1 = z + 719468;
          era = z1 div 146097;
          doe = z1 mod 146097;
          yoe = (doe - doe div 1460 + doe div 36524 - doe div 146096) div 365;
          doy = doe - (365 * yoe + yoe div 4 - yoe div 100);
          mp = (5 * doy + 2) div 153;
          d = doy - (153 * mp + 2) div 5 + 1;
          m = (if mp < 10 then mp + 3 else mp - 9);
          y = yoe + era * 400 + (if m \<le> 2 then 1 else 0)
      in (y, m, d))"

definition YearFromTime :: "int \<Rightarrow> int" where
  "YearFromTime t = fst (civil_from_days (Day t))"

definition MonthFromTime :: "int \<Rightarrow> int" where
  "MonthFromTime t = fst (snd (civil_from_days (Day t)))"

definition DateFromTime :: "int \<Rightarrow> int" where
  "DateFromTime t = snd (snd (civil_from_days (Day t)))"

definition digit_char :: "nat \<Rightarrow> char" where
  "digit_char d = char_of (48 + d)"

fun dec_nat :: "nat \<Rightarrow> string" where
  "dec_nat n = (if n < 10 then [digit_char n] else dec_nat (n div 10) @ [digit_char (n mod 10)])"

declare dec_nat.simps [simp del]

definition dec_int :: "int \<Rightarrow> string" where
  "dec_int i = (if i < 0 then CHR ''-'' # dec_nat (nat (- i)) else dec_nat (nat i))"

definition padStart0 :: "nat \<Rightarrow> string \<Rightarrow> string" where
  "padStart0 n s = replicate (n - length s) CHR ''0'' @ s"

text \<open>
  \<open>toISOString\<close>: \<open>YYYY-MM-DDTHH:mm:ss.sssZ\<close> in UTC, the year with a sign and six
  digits outside 0 to 9999.
\<close>

definition iso_year :: "int \<Rightarrow> string" where
  "iso_year y =
     (if 0 \<le> y \<and> y \<le> 9999 then padStart0 4 (dec_nat (nat y))
      else (if y < 0 then CHR ''-'' else CHR ''+'') # padStart0 6 (dec_nat (nat \<bar>y\<bar>)))"

definition toISOString :: "int \<Rightarrow> string" where
  "toISOString t =
     (let ms = t mod msPerDay in
      iso_year (YearFromTime t) @ ''-'' @ padStart0 2 (dec_nat (nat (MonthFromTime t))) @ ''-''
        @ padStart0 2 (dec_nat (nat (DateFromTime t))) @ ''T''
        @ padStart0 2 (dec_nat (nat (ms div 3600000))) @ '':''
        @ padStart0 2 (dec_nat (nat ((ms div 60000) mod 60))) @ '':''
        @ padStart0 2 (dec_nat (nat ((ms div 1000) mod 60))) @ ''.''
        @ padStart0 3 (dec_nat (nat (ms mod 1000))) @ ''Z'')"

text \<open>\<open>str.split('T')[0]\<close>: the text before the first \<open>T\<close>.\<close>

definition before_T :: "string \<Rightarrow> string" where
  "before_T s = takeWhile (\<lambda>c. c \<noteq> CHR ''T'') s"

text \<open>\<open>startsWith\<close> and \<open>endsWith\<close> of strings, and the same test on bytes.\<close>

definition startsWith :: "'a list \<Rightarrow> 'a list \<Rightarrow> bool" where
  "startsWith s p = (take (length p) s = p)"

definition endsWith :: "'a list \<Rightarrow> 'a list \<Rightarrow> bool" where
  "endsWith s e = (length e \<le> length s \<and> drop (length s - length e) s = e)"

section \<open>The world the module acts on\<close>

text \<open>
  The remote store holds objects; \<open>list\<close> reports each with its pathname, the upload
  time the store recorded and a URL, in the order the store lists them, and \<open>fetch\<close> of
  that URL yields the body. The local disk is a map from paths to file contents. Both
  logs record the calls made: every network call, and every call that changes the disk.
  A listing is taken to be complete: the source reads the one page \<open>list\<close> returns.
\<close>

record blob =
  pathname :: string
  uploadedAt :: int
  url :: string
  body :: buffer

datatype net_call = NetList string | NetFetch string | NetPut string | NetDel string

datatype fs_call = FsCopy string string | FsWrite string | FsUnlink string

record world =
  files :: "string \<Rightarrow> buffer option"
  remote :: "blob list"
  disk_log :: "fs_call list"
  net_log :: "net_call list"

text \<open>
  What the surroundings decide during one run: the clock, the random nonce, the local
  time zone, and which network and disk calls fail. A failed write leaves \<open>torn\<close> at
  the written path.
\<close>

record runtime =
  now :: int
  random16 :: buffer
  tz :: "int \<Rightarrow> int"
  list_fails :: "string \<Rightarrow> bool"
  fetch_fails :: "string \<Rightarrow> bool"
  put_fails :: "string \<Rightarrow> bool"
  del_fails :: "string \<Rightarrow> bool"
  copy_fails :: bool
  write_fails :: bool
  torn :: "buffer option"

definition getDay :: "runtime \<Rightarrow> int \<Rightarrow> int" where
  "getDay rt t = WeekDay (t + tz rt t)"

definition getDate :: "runtime \<Rightarrow> int \<Rightarrow> int" where
  "getDate rt t = DateFromTime (t + tz rt t)"

subsection \<open>The store client\<close>

text \<open>
  \<open>list\<close> filters by prefix. \<open>put\<close> stores the body under the given pathname, in place
  of an object of that name, with the clock reading as upload time; \<open>del\<close> removes the
  object of that name. A failing call changes nothing in the store.
\<close>

definition store_url :: "string \<Rightarrow> string" where
  "store_url p = ''https://store.invalid/'' @ p"

definition list_blobs :: "runtime \<Rightarrow> string \<Rightarrow> world \<Rightarrow> (error + blob list) \<times> world" where
  "list_blobs rt prefix w =
     (let w1 = w\<lparr>net_log := net_log w @ [NetList prefix]\<rparr> in
      if list_fails rt prefix then (Inl NetworkError, w1)
      else (Inr (filter (\<lambda>b. startsWith (pathname b) prefix) (remote w)), w1))"

definition fetch :: "runtime \<Rightarrow> string \<Rightarrow> world \<Rightarrow> (error + buffer) \<times> world" where
  "fetch rt u w =
     (let w1 = w\<lparr>net_log := net_log w @ [NetFetch u]\<rparr> in
      if fetch_fails rt u then (Inl NetworkError, w1)
      else case find (\<lambda>b. url b = u) (remote w) of
             None \<Rightarrow> (Inl NetworkError, w1)
           | Some b \<Rightarrow> (Inr (body b), w1))"

definition put_blob :: "runtime \<Rightarrow> string \<Rightarrow> buffer \<Rightarrow> world \<Rightarrow> (error + unit) \<times> world" where
  "put_blob rt name content w =
     (let w1 = w\<lparr>net_log := net_log w @ [NetPut name]\<rparr> in
      if put_fails rt name then (Inl NetworkError, w1)
      else (Inr (),
            w1\<lparr>remote := filter (\<lambda>b. pathname b \<noteq> name) (remote w)
                   @ [\<lparr>pathname = name, uploadedAt = now rt, url = store_url name,
                       body = content\<rparr>]\<rparr>))"

definition del_blob :: "runtime \<Rightarrow> string \<Rightarrow> world \<Rightarrow> (error + unit) \<times> world" where
  "del_blob rt name w =
     (let w1 = w\<lparr>net_log := net_log w @ [NetDel name]\<rparr> in
      if del_fails rt name then (Inl NetworkError, w1)
      else (Inr (), w1\<lparr>remote := filter (\<lambda>b. pathname b \<noteq> name) (remote w)\<rparr>))"

section \<open>Creating and uploading a backup\<close>

definition dbPath :: "config \<Rightarrow> string" where
  "dbPath env = STORE_DIR env @ ''/messages.db''"

definition backupPath :: "config \<Rightarrow> string" where
  "backupPath env = STORE_DIR env @ ''/messages.backup.tmp''"

text \<open>
  The part of \<open>createSafeBackup\<close> after the snapshot has been read: checksum of the raw
  bytes, gzip, encryption, and the metadata record.
\<close>

definition encodeBackup ::
  "extlib \<Rightarrow> config \<Rightarrow> runtime \<Rightarrow> buffer \<Rightarrow> error + buffer \<times> BackupMetadata" where
  "encodeBackup lib env rt backupBuffer =
     (let checksum = sha256_hex lib backupBuffer;
          compressed = gzip9 lib backupBuffer
      in case encrypt lib env (random16 rt) compressed of
           Inl e \<Rightarrow> Inl e
         | Inr encrypted \<Rightarrow>
             Inr (encrypted,
                  \<lparr>version = ''1.0'', timestamp = toISOString (now rt),
                   size = length backupBuffer, checksum = checksum, sqliteVersion = ''3.x''\<rparr>))"

text \<open>
  \<open>createSafeBackup\<close>. \<open>new Database(dbPath)\<close> opens the live file and creates an empty
  one when there is none. \<open>VACUUM INTO\<close> writes the snapshot to the temporary path, and
  refuses when a file that is not empty is already there. The snapshot is read back and
  encoded, and the temporary file is removed: after the encoding, and in the \<open>catch\<close>
  branch when it exists. After a failed export the temporary file is taken to exist
  exactly when it existed before.
\<close>

definition openDatabase :: "config \<Rightarrow> world \<Rightarrow> buffer \<times> world" where
  "openDatabase env w =
     (case files w (dbPath env) of
        Some live \<Rightarrow> (live, w)
      | None \<Rightarrow>
          ([], w\<lparr>files := (files w)(dbPath env \<mapsto> []),
                 disk_log := disk_log w @ [FsWrite (dbPath env)]\<rparr>))"

definition unlinkTemp :: "config \<Rightarrow> world \<Rightarrow> world" where
  "unlinkTemp env w =
     w\<lparr>files := (files w)(backupPath env := None),
       disk_log := disk_log w @ [FsUnlink (backupPath env)]\<rparr>"

definition createSafeBackup ::
  "extlib \<Rightarrow> config \<Rightarrow> runtime \<Rightarrow> world \<Rightarrow> (error + buffer \<times> BackupMetadata) \<times> world" where
  "createSafeBackup lib env rt w =
     (case openDatabase env w of
        (live, w0) \<Rightarrow>
          (case (if (case files w0 (backupPath env) of None \<Rightarrow> False | Some t \<Rightarrow> t \<noteq> [])
                 then None
                 else vacuum_into lib live) of
             None \<Rightarrow>
               (Inl CaptureError,
                if files w0 (backupPath env) = None then w0 else unlinkTemp env w0)
           | Some backupBuffer \<Rightarrow>
               (encodeBackup lib env rt backupBuffer,
                unlinkTemp env
                  (w0\<lparr>files := (files w0)(backupPath env \<mapsto> backupBuffer),
                      disk_log := disk_log w0 @ [FsWrite (backupPath env)]\<rparr>))))"

text \<open>
  The object name: the prefix, \<open>/daily/\<close>, the UTC date, an underscore, the clock
  reading in decimal, and \<open>.db\<close>.
\<close>

definition backupFilename :: "runtime \<Rightarrow> string" where
  "backupFilename rt =
     (let dateStr = before_T (toISOString (now rt))
      in BACKUP_PREFIX @ ''/daily/'' @ dateStr @ ''_'' @ dec_int (now rt) @ ''.db'')"

definition uploadBackup :: "extlib \<Rightarrow> config \<Rightarrow> runtime \<Rightarrow> world \<Rightarrow> (error + unit) \<times> world" where
  "uploadBackup lib env rt w =
     (case createSafeBackup lib env rt w of
        (Inl e, w1) \<Rightarrow> (Inl e, w1)
      | (Inr (buffer, metadata), w1) \<Rightarrow>
          (let filename = backupFilename rt;
               token = getBlobToken env
           in if token = [] then (Inl TokenNotConfigured, w1)
              else case put_blob rt filename buffer w1 of
                     (Inl e, w2) \<Rightarrow> (Inl e, w2)
                   | (Inr _, w2) \<Rightarrow>
                       put_blob rt (filename @ ''.meta.json'') (json_stringify lib metadata) w2))"

section \<open>Restoring\<close>

definition sqlite_magic :: buffer where
  "sqlite_magic = ascii ''SQLite format 3''"

text \<open>
  Decryption, decompression, the checksum comparison when metadata was found, and the
  header test. The source decodes the first 16 bytes as UTF-8 and tests the text for the
  prefix \<open>SQLite format 3\<close>; the prefix is ASCII, and a decoded text begins with 15 ASCII
  characters exactly when the bytes begin with them, so the test is made on the bytes.
\<close>

definition decodeBackup ::
  "extlib \<Rightarrow> config \<Rightarrow> buffer \<Rightarrow> BackupMetadata option \<Rightarrow> error + buffer" where
  "decodeBackup lib env encrypted metadata =
     (case decrypt lib env encrypted of
        Inl e \<Rightarrow> Inl e
      | Inr compressed \<Rightarrow>
          (case gunzip lib compressed of
             None \<Rightarrow> Inl GunzipError
           | Some dbBuffer \<Rightarrow>
               if (case metadata of
                     None \<Rightarrow> False
                   | Some m \<Rightarrow> sha256_hex lib dbBuffer \<noteq> checksum m)
               then Inl ChecksumMismatch
               else if \<not> startsWith (take 16 dbBuffer) sqlite_magic then Inl InvalidSQLiteFormat
               else Inr dbBuffer))"

definition is_meta :: "string \<Rightarrow> bool" where
  "is_meta p = endsWith p ''.meta.json''"

text \<open>
  \<open>blobs.sort((a, b) => time(b) - time(a))\<close>: a stable sort, latest upload first.
\<close>

definition latest_first :: "blob list \<Rightarrow> blob list" where
  "latest_first bs = sort_key (\<lambda>b. - uploadedAt b) bs"

text \<open>The target: the given name, or for none (or an empty one) the latest daily object.\<close>

definition resolveTarget :: "runtime \<Rightarrow> string option \<Rightarrow> world \<Rightarrow> (error + string) \<times> world" where
  "resolveTarget rt filename w =
     (let targetFile = (case filename of None \<Rightarrow> [] | Some f \<Rightarrow> f) in
      if targetFile = [] then
        (case list_blobs rt (BACKUP_PREFIX @ ''/daily/'') w of
           (Inl e, w1) \<Rightarrow> (Inl e, w1)
         | (Inr blobs, w1) \<Rightarrow>
             (case latest_first (filter (\<lambda>b. \<not> is_meta (pathname b)) blobs) of
                [] \<Rightarrow> (Inl NoBackupFound, w1)
              | b # _ \<Rightarrow> (Inr (pathname b), w1)))
      else (Inr targetFile, w))"

text \<open>
  The listing under the target name as prefix: its first entry is the backup object, and
  the entry named target plus \<open>.meta.json\<close>, when there is one, is fetched and parsed.
\<close>

definition lookupBackup ::
  "extlib \<Rightarrow> runtime \<Rightarrow> string \<Rightarrow> world \<Rightarrow> (error + blob \<times> BackupMetadata option) \<times> world" where
  "lookupBackup lib rt targetFile w =
     (case list_blobs rt targetFile w of
        (Inl e, w1) \<Rightarrow> (Inl e, w1)
      | (Inr blobs, w1) \<Rightarrow>
          (case blobs of
             [] \<Rightarrow> (Inl (BackupNotFound targetFile), w1)
           | backupBlob # _ \<Rightarrow>
               (case find (\<lambda>b. pathname b = targetFile @ ''.meta.json'') blobs of
                  None \<Rightarrow> (Inr (backupBlob, None), w1)
                | Some metaBlob \<Rightarrow>
                    (case fetch rt (url metaBlob) w1 of
                       (Inl e, w2) \<Rightarrow> (Inl e, w2)
                     | (Inr text, w2) \<Rightarrow>
                         (case json_parse lib text of
                            None \<Rightarrow> (Inl JsonError, w2)
                          | Some metadata \<Rightarrow> (Inr (backupBlob, metadata), w2))))))"

text \<open>Everything \<open>restoreFromBackup\<close> does before decoding, after the token test.\<close>

definition restoreDownload ::
  "extlib \<Rightarrow> runtime \<Rightarrow> string option \<Rightarrow> world
     \<Rightarrow> (error + buffer \<times> BackupMetadata option) \<times> world" where
  "restoreDownload lib rt filename w =
     (case resolveTarget rt filename w of
        (Inl e, w1) \<Rightarrow> (Inl e, w1)
      | (Inr targetFile, w1) \<Rightarrow>
          (case lookupBackup lib rt targetFile w1 of
             (Inl e, w2) \<Rightarrow> (Inl e, w2)
           | (Inr (backupBlob, metadata), w2) \<Rightarrow>
               (case fetch rt (url backupBlob) w2 of
                  (Inl e, w3) \<Rightarrow> (Inl e, w3)
                | (Inr encrypted, w3) \<Rightarrow> (Inr (encrypted, metadata), w3))))"

text \<open>
  The end of \<open>restoreFromBackup\<close>: an existing live file is copied to
  \<open>dbPath.bak.<now>\<close>, then the decoded bytes are written to the live path. A throwing
  copy ends the run before the write.
\<close>

definition localBackup :: "config \<Rightarrow> runtime \<Rightarrow> string" where
  "localBackup env rt = dbPath env @ ''.bak.'' @ dec_int (now rt)"

definition installDatabase :: "config \<Rightarrow> runtime \<Rightarrow> buffer \<Rightarrow> world \<Rightarrow> (error + unit) \<times> world" where
  "installDatabase env rt dbBuffer w =
     (case (case files w (dbPath env) of
              None \<Rightarrow> Inr w
            | Some current \<Rightarrow>
                (let w1 = w\<lparr>disk_log := disk_log w @ [FsCopy (dbPath env) (localBackup env rt)]\<rparr>
                 in if copy_fails rt then Inl w1
                    else Inr (w1\<lparr>files := (files w1)(localBackup env rt \<mapsto> current)\<rparr>))) of
        Inl w1 \<Rightarrow> (Inl FsError, w1)
      | Inr w1 \<Rightarrow>
          (let w2 = w1\<lparr>disk_log := disk_log w1 @ [FsWrite (dbPath env)]\<rparr>
           in if write_fails rt then (Inl FsError, w2\<lparr>files := (files w2)(dbPath env := torn rt)\<rparr>)
              else (Inr (), w2\<lparr>files := (files w2)(dbPath env \<mapsto> dbBuffer)\<rparr>)))"

definition restoreFromBackup ::
  "extlib \<Rightarrow> config \<Rightarrow> runtime \<Rightarrow> string option \<Rightarrow> world \<Rightarrow> (error + unit) \<times> world" where
  "restoreFromBackup lib env rt filename w =
     (if getBlobToken env = [] then (Inl TokenNotConfigured, w)
      else case restoreDownload lib rt filename w of
             (Inl e, w1) \<Rightarrow> (Inl e, w1)
           | (Inr (encrypted, metadata), w1) \<Rightarrow>
               (case decodeBackup lib env encrypted metadata of
                  Inl e \<Rightarrow> (Inl e, w1)
                | Inr dbBuffer \<Rightarrow> installDatabase env rt dbBuffer w1))"

section \<open>Cleaning up old backups\<close>

text \<open>
  The age in days is the quotient of a difference of millisecond counts by the
  milliseconds of a day, taken exactly; the source computes it in double precision,
  where for whole millisecond counts the comparisons with 7, 28 and 365 come out the same.
\<close>

definition ageDays :: "int \<Rightarrow> int \<Rightarrow> rat" where
  "ageDays nowTime uploadTime = of_int (nowTime - uploadTime) / of_int (1000 * 60 * 60 * 24)"

definition shouldKeep :: "rat \<Rightarrow> bool \<Rightarrow> bool \<Rightarrow> bool" where
  "shouldKeep age isWeekly isMonthly =
     (age < 7 \<or> (isWeekly \<and> age < 28) \<or> (isMonthly \<and> age < 365))"

definition keepsBlob :: "runtime \<Rightarrow> blob \<Rightarrow> bool" where
  "keepsBlob rt b =
     (let uploadDate = uploadedAt b;
          age = ageDays (now rt) uploadDate;
          isWeekly = (getDay rt uploadDate = 0);
          isMonthly = (getDate rt uploadDate = 1)
      in shouldKeep age isWeekly isMonthly)"

text \<open>The first loop collects the names to delete, the second deletes them one by one
  and swallows each failure.\<close>

fun mark_loop :: "runtime \<Rightarrow> blob list \<Rightarrow> string list \<Rightarrow> string list" where
  "mark_loop rt [] toDelete = toDelete"
| "mark_loop rt (b # bs) toDelete =
     (if \<not> keepsBlob rt b
      then mark_loop rt bs (toDelete @ [pathname b, pathname b @ ''.meta.json''])
      else mark_loop rt bs toDelete)"

fun delete_loop :: "runtime \<Rightarrow> string list \<Rightarrow> world \<Rightarrow> world" where
  "delete_loop rt [] w = w"
| "delete_loop rt (p # ps) w = delete_loop rt ps (snd (del_blob rt p w))"

definition cleanupOldBackups :: "config \<Rightarrow> runtime \<Rightarrow> world \<Rightarrow> (error + unit) \<times> world" where
  "cleanupOldBackups env rt w =
     (if getBlobToken env = [] then (Inr (), w)
      else case list_blobs rt BACKUP_PREFIX w of
             (Inl e, w1) \<Rightarrow> (Inl e, w1)
           | (Inr blobs, w1) \<Rightarrow>
               (let dbBlobs = filter (\<lambda>b. \<not> is_meta (pathname b)) blobs;
                    toDelete = mark_loop rt dbBlobs []
                in (Inr (), delete_loop rt toDelete w1)))"

section \<open>Verifying the latest backup\<close>

definition verifyLatestBackup :: "extlib \<Rightarrow> config \<Rightarrow> runtime \<Rightarrow> world \<Rightarrow> bool \<times> world" where
  "verifyLatestBackup lib env rt w =
     (if getBlobToken env = [] then (False, w)
      else case list_blobs rt (BACKUP_PREFIX @ ''/daily/'') w of
             (Inl e, w1) \<Rightarrow> (False, w1)
           | (Inr blobs, w1) \<Rightarrow>
               (case latest_first (filter (\<lambda>b. \<not> is_meta (pathname b)) blobs) of
                  [] \<Rightarrow> (False, w1)
                | latest # _ \<Rightarrow>
                    (case fetch rt (url latest) w1 of
                       (Inl e, w2) \<Rightarrow> (False, w2)
                     | (Inr encrypted, w2) \<Rightarrow>
                         (case decrypt lib env encrypted of
                            Inl e \<Rightarrow> (False, w2)
                          | Inr plain \<Rightarrow> (True, w2)))))"

section \<open>The contract of the codecs, and a small instance\<close>

text \<open>
  What the round trip needs from the libraries: \<open>gunzip\<close> undoes \<open>gzip\<close>, and under a
  32-byte key and a 16-byte nonce the cipher yields a 16-byte tag with which the decipher
  returns the plaintext.
\<close>

definition codec_contract :: "extlib \<Rightarrow> bool" where
  "codec_contract lib \<longleftrightarrow>
     (\<forall>b. gunzip lib (gzip9 lib b) = Some b) \<and>
     (\<forall>key iv plain. length key = 32 \<and> length iv = 16 \<longrightarrow>
        (case aes_gcm_encrypt lib key iv plain of
           None \<Rightarrow> False
         | Some (c, t) \<Rightarrow> length t = 16 \<and> aes_gcm_decrypt lib key iv t c = Some plain))"

text \<open>
  An executable instance, for evaluating the module on concrete inputs. Its cipher keeps
  what matters of Node's AES-256-GCM: a key that is not 32 bytes long and an empty nonce
  are refused, the tag written is 16 bytes long, and the decipher, given no
  \<open>authTagLength\<close>, accepts a tag of 4, 8 or 12 to 16 bytes that is a prefix of the full
  tag. Its engine exports a live file that begins with the SQLite magic as it is and
  refuses any other.
\<close>

definition demo_tag :: "buffer \<Rightarrow> buffer \<Rightarrow> buffer \<Rightarrow> buffer" where
  "demo_tag key iv data = replicate 16 (sum_list key + sum_list iv + sum_list data)"

definition gcm_tag_length :: "nat \<Rightarrow> bool" where
  "gcm_tag_length n = (n = 4 \<or> n = 8 \<or> (12 \<le> n \<and> n \<le> 16))"

definition demo_encrypt :: "buffer \<Rightarrow> buffer \<Rightarrow> buffer \<Rightarrow> (buffer \<times> buffer) option" where
  "demo_encrypt key iv plain =
     (if length key = 32 \<and> iv \<noteq> []
      then Some (map (\<lambda>b. b + 1) plain, demo_tag key iv (map (\<lambda>b. b + 1) plain))
      else None)"

definition demo_decrypt :: "buffer \<Rightarrow> buffer \<Rightarrow> buffer \<Rightarrow> buffer \<Rightarrow> buffer option" where
  "demo_decrypt key iv tag data =
     (if length key = 32 \<and> iv \<noteq> [] \<and> gcm_tag_length (length tag)
         \<and> tag = take (length tag) (demo_tag key iv data)
      then Some (map (\<lambda>b. b - 1) data)
      else None)"

definition demo_gzip :: "buffer \<Rightarrow> buffer" where
  "demo_gzip b = [0x1F, 0x8B] @ b"

definition demo_gunzip :: "buffer \<Rightarrow> buffer option" where
  "demo_gunzip c = (if take 2 c = [0x1F, 0x8B] then Some (drop 2 c) else None)"

definition demo_vacuum :: "buffer \<Rightarrow> buffer option" where
  "demo_vacuum live = (if take 15 live = ascii ''SQLite format 3'' then Some live else None)"

definition demo_sha :: "buffer \<Rightarrow> string" where
  "demo_sha b = map (\<lambda>w. char_of (unat w)) b"

definition demo_parse :: "buffer \<Rightarrow> BackupMetadata option option" where
  "demo_parse b =
     Some (Some \<lparr>version = ''1.0'', timestamp = [], size = 0,
                 checksum = map (\<lambda>w. char_of (unat w)) b, sqliteVersion = ''3.x''\<rparr>)"

definition demo_lib :: extlib where
  "demo_lib =
     \<lparr>aes_gcm_encrypt = demo_encrypt, aes_gcm_decrypt = demo_decrypt, sha256_hex = demo_sha,
      gzip9 = demo_gzip, gunzip = demo_gunzip, vacuum_into = demo_vacuum,
      json_stringify = (\<lambda>m. ascii (checksum m)), json_parse = demo_parse\<rparr>"

definition demo_env :: config where
  "demo_env =
     \<lparr>BACKUP_KEY = Some (js ''0123456789abcdef0123456789abcdef''),
      BLOB_READ_WRITE_TOKEN = Some ''token'', STORE_DIR = ''/store''\<rparr>"

definition demo_rt :: runtime where
  "demo_rt =
     \<lparr>now = 1773576000000, random16 = replicate 16 7, tz = (\<lambda>t. 0),
      list_fails = (\<lambda>p. False), fetch_fails = (\<lambda>u. False), put_fails = (\<lambda>p. False),
      del_fails = (\<lambda>p. False), copy_fails = False, write_fails = False, torn = None\<rparr>"

definition demo_db :: buffer where
  "demo_db = ascii ''SQLite format 3'' @ [0, 1, 2]"

text \<open>A 20-byte input: the nonce and the first four bytes of the tag of the empty ciphertext.\<close>

definition short_artifact :: buffer where
  "short_artifact =
     replicate 16 7 @ take 4 (demo_tag (getBackupKey demo_env) (replicate 16 7) [])"

text \<open>
  What \<open>encrypt\<close> returns on the small instance under the nonce of \<open>demo_rt\<close>, and a
  world with one stored object named as in the backup guide, of any body, and a live
  database file.
\<close>

definition demo_seal :: "buffer \<Rightarrow> buffer" where
  "demo_seal plain =
     replicate 16 7
       @ demo_tag (getBackupKey demo_env) (replicate 16 7) (map (\<lambda>b. b + 1) plain)
       @ map (\<lambda>b. b + 1) plain"

definition demo_name :: string where
  "demo_name = ''nanoclaw-backup/daily/2026-02-27_123456.db''"

definition demo_blob :: "buffer \<Rightarrow> blob" where
  "demo_blob content =
     \<lparr>pathname = demo_name, uploadedAt = 1772150523456, url = store_url demo_name,
      body = content\<rparr>"

definition demo_world :: "buffer \<Rightarrow> world" where
  "demo_world content =
     \<lparr>files = [dbPath demo_env \<mapsto> ascii ''old database''], remote = [demo_blob content],
      disk_log = [], net_log = []\<rparr>"

text \<open>
  A listing for the retention rule, read at noon UTC of Sunday 2026-03-15 (the clock of
  \<open>demo_rt\<close>): objects uploaded 3 days earlier, 10 days earlier (Thursday the 5th), on
  Sunday 2026-02-22 at 13:00 (almost 21 days earlier), on 2026-02-01 (42 days earlier)
  and on 2025-02-01 (407 days earlier).
\<close>

definition listed :: "string \<Rightarrow> int \<Rightarrow> blob" where
  "listed name t = \<lparr>pathname = name, uploadedAt = t, url = store_url name, body = []\<rparr>"

definition retention_listing :: "blob list" where
  "retention_listing =
     [listed ''nanoclaw-backup/daily/2026-03-12_1773316800000.db'' 1773316800000,
      listed ''nanoclaw-backup/daily/2026-03-05_1772712000000.db'' 1772712000000,
      listed ''nanoclaw-backup/daily/2026-02-22_1771765200000.db'' 1771765200000,
      listed ''nanoclaw-backup/daily/2026-02-01_1769947200000.db'' 1769947200000,
      listed ''nanoclaw-backup/daily/2025-02-01_1738411200000.db'' 1738411200000]"

text \<open>
  An artifact whose ciphertext byte was changed after sealing, and a world that also
  stores a metadata object beside the artifact.
\<close>

definition tampered_artifact :: buffer where
  "tampered_artifact =
     replicate 16 7 @ demo_tag (getBackupKey demo_env) (replicate 16 7) [5] @ [6]"

definition demo_meta_blob :: "buffer \<Rightarrow> blob" where
  "demo_meta_blob content =
     \<lparr>pathname = demo_name @ ''.meta.json'', uploadedAt = 1772150523999,
      url = store_url (demo_name @ ''.meta.json''), body = content\<rparr>"

definition demo_world_meta :: "buffer \<Rightarrow> buffer \<Rightarrow> world" where
  "demo_world_meta content metaText =
     \<lparr>files = [dbPath demo_env \<mapsto> ascii ''old database''],
      remote = [demo_blob content, demo_meta_blob metaText], disk_log = [], net_log = []\<rparr>"

definition retention_world :: world where
  "retention_world = \<lparr>files = Map.empty, remote = retention_listing, disk_log = [], net_log = []\<rparr>"

section \<open>Pairing of artifacts and metadata\<close>

text \<open>
  The invariant of the data model: for every artifact name (a name that is not a
  metadata name), the artifact is stored exactly when the object named artifact plus
  \<open>.meta.json\<close> is stored.
\<close>

definition paired :: "blob list \<Rightarrow> bool" where
  "paired bs \<longleftrightarrow>
     (\<forall>p. \<not> is_meta p \<longrightarrow>
        (p \<in> pathname ` set bs \<longleftrightarrow> p @ ''.meta.json'' \<in> pathname ` set bs))"

text \<open>Sequences of uploads and cleanups, each run with its own surroundings.\<close>

datatype operation = Upload | Cleanup

fun run_ops :: "extlib \<Rightarrow> config \<Rightarrow> (operation \<times> runtime) list \<Rightarrow> world \<Rightarrow> world" where
  "run_ops lib env [] w = w"
| "run_ops lib env ((Upload, rt) # ops) w = run_ops lib env ops (snd (uploadBackup lib env rt w))"
| "run_ops lib env ((Cleanup, rt) # ops) w = run_ops lib env ops (snd (cleanupOldBackups env rt w))"

text \<open>
  The failures that split a pair: in an upload, the put of the metadata failing when the
  put of the artifact does not; in a cleanup, the delete of an artifact and the delete
  of its metadata not failing alike. Every other failure is allowed.
\<close>

fun splits_no_pair :: "operation \<times> runtime \<Rightarrow> bool" where
  "splits_no_pair (Upload, rt) =
     (put_fails rt (backupFilename rt @ ''.meta.json'') \<longrightarrow> put_fails rt (backupFilename rt))"
| "splits_no_pair (Cleanup, rt) =
     (\<forall>p. \<not> is_meta p \<longrightarrow> del_fails rt p = del_fails rt (p @ ''.meta.json''))"

text \<open>
  A store holding two pairs, one uploaded three days before the clock of \<open>demo_rt\<close>
  and one uploaded on 2025-02-01.
\<close>

definition pair_world :: world where
  "pair_world =
     \<lparr>files = [dbPath demo_env \<mapsto> demo_db],
      remote =
        [listed ''nanoclaw-backup/daily/2026-03-12_1773316800000.db'' 1773316800000,
         listed ''nanoclaw-backup/daily/2026-03-12_1773316800000.db.meta.json'' 1773316800000,
         listed ''nanoclaw-backup/daily/2025-02-01_1738411200000.db'' 1738411200000,
         listed ''nanoclaw-backup/daily/2025-02-01_1738411200000.db.meta.json'' 1738411200000],
      disk_log = [], net_log = []\<rparr>"

definition empty_world :: world where
  "empty_world =
     \<lparr>files = [dbPath demo_env \<mapsto> demo_db], remote = [], disk_log = [], net_log = []\<rparr>"

section \<open>The encryption key\<close>

lemma utf8_codepoint_ascii: "c < 0x80 \<Longrightarrow> length (utf8_codepoint c) = 1"
  by (simp add: utf8_codepoint_def)

lemma not_surrogate_ascii:
  fixes u :: "16 word"
  assumes "u < 0x80"
  shows "\<not> is_high_surrogate u" and "\<not> is_low_surrogate u"
  using assms
  by (auto simp: is_high_surrogate_def is_low_surrogate_def word_le_nat_alt word_less_nat_alt)

lemma unat_ascii:
  fixes u :: "16 word"
  shows "u < 0x80 \<Longrightarrow> unat u < 0x80"
  by (simp add: word_less_nat_alt)

lemma length_buffer_from_ascii:
  "list_all (\<lambda>u. u < 0x80) s \<Longrightarrow> length (buffer_from s) = length s"
proof (induction s rule: buffer_from.induct)
  case 1
  show ?case by simp
next
  case (2 u)
  then show ?case
    by (simp add: not_surrogate_ascii utf8_codepoint_ascii unat_ascii)
next
  case (3 u v rest)
  then show ?case
    by (simp add: not_surrogate_ascii utf8_codepoint_ascii unat_ascii)
qed

lemma getBackupKey_ascii_supplied:
  assumes "BACKUP_KEY env = Some k" and "list_all (\<lambda>u. u < 0x80) k"
  shows "length (getBackupKey env) = 32"
proof -
  let ?s = "slice0 32 (padEnd 32 (of_char CHR ''0'') k)"
  have len: "length ?s = 32"
    by (simp add: slice0_def padEnd_def)
  have "list_all (\<lambda>u. u < 0x80) (padEnd 32 (of_char CHR ''0'') k)"
    using assms(2) by (auto simp: padEnd_def list_all_iff)
  then have asc: "list_all (\<lambda>u. u < 0x80) ?s"
    unfolding slice0_def list_all_iff by (meson in_set_takeD)
  have ne: "?s \<noteq> []"
    using len by auto
  have "getBackupKey env = buffer_from ?s"
    using assms(1) ne by (simp add: getBackupKey_def)
  then show ?thesis
    using length_buffer_from_ascii [OF asc] len by simp
qed

lemma getBackupKey_absent: "BACKUP_KEY env = None \<Longrightarrow> length (getBackupKey env) = 29"
  by (simp add: getBackupKey_def default_key_def js_def utf8_codepoint_def
      is_high_surrogate_def is_low_surrogate_def)

text \<open>
  C7. With no \<open>BACKUP_KEY\<close> in the environment the key is the built-in text, which is
  29 characters long and gives a 29-byte key, not the 32 bytes of the cipher.
\<close>

theorem getBackupKey_default_length:
  "length (getBackupKey \<lparr>BACKUP_KEY = None, BLOB_READ_WRITE_TOKEN = Some ''token'',
                          STORE_DIR = ''/store''\<rparr>) = 29"
  by (simp add: getBackupKey_def default_key_def js_def utf8_codepoint_def
      is_high_surrogate_def is_low_surrogate_def)

lemma getBackupKey_non_ascii_length:
  "length (getBackupKey \<lparr>BACKUP_KEY = Some [0xE9], BLOB_READ_WRITE_TOKEN = Some ''token'',
                          STORE_DIR = ''/store''\<rparr>) = 33"
  by code_simp

lemma demo_key_length: "length (getBackupKey demo_env) = 32"
  by (rule getBackupKey_ascii_supplied [where k = "js ''0123456789abcdef0123456789abcdef''"])
    (simp_all add: demo_env_def js_def)

section \<open>Encoding and decoding\<close>

lemma demo_gzip_roundtrip: "demo_gunzip (demo_gzip b) = Some b"
  by (simp add: demo_gzip_def demo_gunzip_def)

lemma demo_cipher_roundtrip:
  assumes "length key = 32" and "length iv = 16"
  shows "demo_encrypt key iv plain = Some (map (\<lambda>b. b + 1) plain, demo_tag key iv (map (\<lambda>b. b + 1) plain))"
    and "length (demo_tag key iv c) = 16"
    and "demo_decrypt key iv (demo_tag key iv (map (\<lambda>b. b + 1) plain)) (map (\<lambda>b. b + 1) plain) = Some plain"
proof -
  have iv: "iv \<noteq> []" using assms(2) by auto
  show "demo_encrypt key iv plain = Some (map (\<lambda>b. b + 1) plain, demo_tag key iv (map (\<lambda>b. b + 1) plain))"
    using assms(1) iv by (simp add: demo_encrypt_def)
  show len: "length (demo_tag key iv c) = 16"
    by (simp add: demo_tag_def)
  have "take 16 (demo_tag key iv (map (\<lambda>b. b + 1) plain)) = demo_tag key iv (map (\<lambda>b. b + 1) plain)"
    by (simp add: demo_tag_def)
  then show "demo_decrypt key iv (demo_tag key iv (map (\<lambda>b. b + 1) plain)) (map (\<lambda>b. b + 1) plain) = Some plain"
    using assms(1) iv by (simp add: demo_decrypt_def gcm_tag_length_def demo_tag_def comp_def)
qed

lemma demo_contract: "codec_contract demo_lib"
  unfolding codec_contract_def
  by (simp add: demo_lib_def demo_gzip_roundtrip demo_cipher_roundtrip)

lemma decrypt_encrypt:
  assumes lib: "codec_contract lib"
    and key: "length (getBackupKey env) = 32"
    and iv: "length iv = 16"
  shows "\<exists>artifact. encrypt lib env iv plain = Inr artifact \<and> decrypt lib env artifact = Inr plain"
proof -
  from lib have "\<forall>key iv plain. length key = 32 \<and> length iv = 16 \<longrightarrow>
        (case aes_gcm_encrypt lib key iv plain of
           None \<Rightarrow> False
         | Some (c, t) \<Rightarrow> length t = 16 \<and> aes_gcm_decrypt lib key iv t c = Some plain)"
    by (simp add: codec_contract_def)
  with key iv have *: "case aes_gcm_encrypt lib (getBackupKey env) iv plain of
           None \<Rightarrow> False
         | Some (c, t) \<Rightarrow> length t = 16 \<and> aes_gcm_decrypt lib (getBackupKey env) iv t c = Some plain"
    by blast
  then obtain c t where
    enc: "aes_gcm_encrypt lib (getBackupKey env) iv plain = Some (c, t)"
    and t: "length t = 16"
    and dec: "aes_gcm_decrypt lib (getBackupKey env) iv t c = Some plain"
    by (cases "aes_gcm_encrypt lib (getBackupKey env) iv plain") auto
  have "encrypt lib env iv plain = Inr (iv @ t @ c)"
    by (simp add: encrypt_def enc)
  moreover have "decrypt lib env (iv @ t @ c) = Inr plain"
    using iv t dec by (simp add: decrypt_def)
  ultimately show ?thesis by blast
qed

lemma header_of_prefix: "startsWith B sqlite_magic \<Longrightarrow> startsWith (take 16 B) sqlite_magic"
  by (simp add: startsWith_def sqlite_magic_def ascii_def min_def)

text \<open>
  The round trip under a key of 32 bytes. With libraries that meet the codec contract
  and a 16-byte nonce, encoding any buffer that begins with the SQLite magic succeeds,
  the metadata carries the checksum and the length of the buffer, and decoding the
  artifact with that metadata returns the buffer.
\<close>

theorem backup_roundtrip:
  assumes lib: "codec_contract lib"
    and key: "length (getBackupKey env) = 32"
    and iv: "length (random16 rt) = 16"
    and magic: "startsWith B sqlite_magic"
  shows "\<exists>artifact meta. encodeBackup lib env rt B = Inr (artifact, meta)
           \<and> checksum meta = sha256_hex lib B \<and> size meta = length B
           \<and> decodeBackup lib env artifact (Some meta) = Inr B"
proof -
  from decrypt_encrypt [OF lib key iv] obtain artifact where
    enc: "encrypt lib env (random16 rt) (gzip9 lib B) = Inr artifact"
    and dec: "decrypt lib env artifact = Inr (gzip9 lib B)"
    by blast
  have unz: "gunzip lib (gzip9 lib B) = Some B"
    using lib by (simp add: codec_contract_def)
  let ?meta = "\<lparr>version = ''1.0'', timestamp = toISOString (now rt), size = length B,
                checksum = sha256_hex lib B, sqliteVersion = ''3.x''\<rparr>"
  have "encodeBackup lib env rt B = Inr (artifact, ?meta)"
    by (simp add: encodeBackup_def enc)
  moreover have "decodeBackup lib env artifact (Some ?meta) = Inr B"
    by (simp add: decodeBackup_def dec unz header_of_prefix [OF magic])
  ultimately show ?thesis by simp
qed

text \<open>The round trip on the small instance, for an 18-byte database image.\<close>

theorem backup_roundtrip_witness:
  "\<exists>artifact meta. encodeBackup demo_lib demo_env demo_rt demo_db = Inr (artifact, meta)
     \<and> checksum meta = sha256_hex demo_lib demo_db \<and> size meta = length demo_db
     \<and> decodeBackup demo_lib demo_env artifact (Some meta) = Inr demo_db"
proof -
  have iv: "length (random16 demo_rt) = 16"
    by (simp add: demo_rt_def)
  have magic: "startsWith demo_db sqlite_magic"
    by (simp add: demo_db_def startsWith_def sqlite_magic_def ascii_def)
  show ?thesis
    using backup_roundtrip [OF demo_contract demo_key_length iv magic] .
qed

text \<open>
  Without a key in the environment the derived key is 29 bytes long, and a cipher that
  refuses keys of another length than 32 bytes fails the encoding of every buffer.
\<close>

lemma encode_without_key:
  assumes "BACKUP_KEY env = None"
    and "\<And>key iv plain. length key \<noteq> 32 \<Longrightarrow> aes_gcm_encrypt lib key iv plain = None"
  shows "encodeBackup lib env rt B = Inl CipherError"
proof -
  have "length (getBackupKey env) \<noteq> 32"
    using getBackupKey_absent [OF assms(1)] by simp
  then have "aes_gcm_encrypt lib (getBackupKey env) (random16 rt) (gzip9 lib B) = None"
    by (rule assms(2))
  then show ?thesis
    by (simp add: encodeBackup_def encrypt_def)
qed

text \<open>
  C1. With no \<open>BACKUP_KEY\<close> in the environment the round trip fails at its first
  half: encoding ends with the cipher's error for every buffer, also one that begins
  with the SQLite magic, so there is no artifact to decode.
\<close>

theorem roundtrip_fails_without_key:
  "encodeBackup demo_lib (demo_env\<lparr>BACKUP_KEY := None\<rparr>) rt B = Inl CipherError"
proof (rule encode_without_key)
  show "BACKUP_KEY (demo_env\<lparr>BACKUP_KEY := None\<rparr>) = None"
    by simp
  show "aes_gcm_encrypt demo_lib key iv plain = None" if "length key \<noteq> 32" for key iv plain
    using that by (simp add: demo_lib_def demo_encrypt_def)
qed

text \<open>
  C10, as amended. On an input shorter than 32 bytes \<open>decrypt\<close> checks no length: it
  hands the decipher the first bytes (at most 16) as nonce, the bytes from the 16th on
  (fewer than 16, possibly none) as tag and an empty ciphertext, and raises exactly when
  the decipher refuses them.
\<close>

theorem decrypt_short_input:
  assumes "length encrypted < 32"
  shows "decrypt lib env encrypted =
           (case aes_gcm_decrypt lib (getBackupKey env) (take 16 encrypted) (drop 16 encrypted) [] of
              None \<Rightarrow> Inl CipherError
            | Some plain \<Rightarrow> Inr plain)
         \<and> length (drop 16 encrypted) < 16"
  using assms by (simp add: decrypt_def)

text \<open>A three-byte input: the tag is empty and the decipher refuses it.\<close>

theorem decrypt_short_input_witness:
  "decrypt demo_lib demo_env [1, 2, 3] = Inl CipherError"
proof -
  have "length [1, 2, 3 :: 8 word] < 32" by simp
  from decrypt_short_input [OF this, of demo_lib demo_env]
  show ?thesis by (simp add: demo_lib_def demo_decrypt_def gcm_tag_length_def)
qed

text \<open>
  C10 as stated fails: a 20-byte input whose last four bytes are a prefix of the right
  tag is accepted by a decipher that takes four-byte tags, and \<open>decrypt\<close> returns the
  empty plaintext.
\<close>

theorem decrypt_short_input_counterexample:
  "length short_artifact < 32 \<and> decrypt demo_lib demo_env short_artifact = Inr []"
proof -
  define K where "K = getBackupKey demo_env"
  define x where "x = sum_list K + sum_list (replicate 16 (7 :: 8 word)) + sum_list ([] :: buffer)"
  have K: "length K = 32"
    unfolding K_def by (rule demo_key_length)
  have sa: "short_artifact = replicate 16 7 @ replicate 4 x"
    by (simp add: short_artifact_def demo_tag_def K_def x_def)
  have len: "length short_artifact = 20"
    by (simp add: sa)
  have iv: "take 16 short_artifact = replicate 16 7"
    by (simp add: sa)
  have tag: "take 16 (drop 16 short_artifact) = replicate 4 x"
    by (simp add: sa)
  have data: "drop 32 short_artifact = []"
    by (simp add: sa)
  have "demo_decrypt K (replicate 16 7) (replicate 4 x) [] = Some []"
    by (simp add: demo_decrypt_def K gcm_tag_length_def demo_tag_def x_def)
  then have "decrypt demo_lib demo_env short_artifact = Inr []"
    by (simp add: decrypt_def iv tag data demo_lib_def K_def)
  with len show ?thesis by simp
qed

section \<open>Restoring: what a failed decode leaves behind\<close>

lemma list_blobs_frame:
  "list_blobs rt p w = (r, w') \<Longrightarrow>
     files w' = files w \<and> disk_log w' = disk_log w \<and> remote w' = remote w"
  by (auto simp: list_blobs_def Let_def split: if_splits)

lemma fetch_frame:
  "fetch rt u w = (r, w') \<Longrightarrow>
     files w' = files w \<and> disk_log w' = disk_log w \<and> remote w' = remote w"
  by (auto simp: fetch_def Let_def split: if_splits option.splits)

lemma resolveTarget_frame:
  assumes "resolveTarget rt filename w = (r, w')"
  shows "files w' = files w \<and> disk_log w' = disk_log w \<and> remote w' = remote w"
proof (cases "(case filename of None \<Rightarrow> [] | Some f \<Rightarrow> f) = []")
  case True
  obtain r1 w1 where l: "list_blobs rt (BACKUP_PREFIX @ ''/daily/'') w = (r1, w1)"
    by (cases "list_blobs rt (BACKUP_PREFIX @ ''/daily/'') w")
  from assms True l have "w' = w1"
    by (auto simp: resolveTarget_def Let_def split: sum.splits list.splits)
  with list_blobs_frame [OF l] show ?thesis by simp
next
  case False
  with assms have "w' = w"
    by (simp add: resolveTarget_def Let_def)
  then show ?thesis by simp
qed

lemma lookupBackup_frame:
  assumes "lookupBackup lib rt targetFile w = (r, w')"
  shows "files w' = files w \<and> disk_log w' = disk_log w \<and> remote w' = remote w"
proof -
  obtain r1 w1 where l: "list_blobs rt targetFile w = (r1, w1)"
    by (cases "list_blobs rt targetFile w")
  note f1 = list_blobs_frame [OF l]
  show ?thesis
  proof (cases r1)
    case (Inl e)
    with assms l have "w' = w1" by (simp add: lookupBackup_def)
    with f1 show ?thesis by simp
  next
    case (Inr blobs)
    show ?thesis
    proof (cases "blobs = [] \<or> find (\<lambda>b. pathname b = targetFile @ ''.meta.json'') blobs = None")
      case True
      with assms l Inr have "w' = w1"
        by (auto simp: lookupBackup_def split: list.splits)
      with f1 show ?thesis by simp
    next
      case False
      then obtain backupBlob rest metaBlob where
        b: "blobs = backupBlob # rest"
        and m: "find (\<lambda>b. pathname b = targetFile @ ''.meta.json'') blobs = Some metaBlob"
        by (cases blobs) auto
      obtain r2 w2 where f: "fetch rt (url metaBlob) w1 = (r2, w2)"
        by (cases "fetch rt (url metaBlob) w1")
      from assms l Inr b m f have "w' = w2"
        by (auto simp: lookupBackup_def split: sum.splits option.splits)
      with fetch_frame [OF f] f1 show ?thesis by simp
    qed
  qed
qed

lemma restoreDownload_frame:
  assumes "restoreDownload lib rt filename w = (r, w')"
  shows "files w' = files w \<and> disk_log w' = disk_log w \<and> remote w' = remote w"
proof -
  obtain r1 w1 where t: "resolveTarget rt filename w = (r1, w1)"
    by (cases "resolveTarget rt filename w")
  note f1 = resolveTarget_frame [OF t]
  show ?thesis
  proof (cases r1)
    case (Inl e)
    with assms t have "w' = w1" by (simp add: restoreDownload_def)
    with f1 show ?thesis by simp
  next
    case (Inr targetFile)
    obtain r2 w2 where l: "lookupBackup lib rt targetFile w1 = (r2, w2)"
      by (cases "lookupBackup lib rt targetFile w1")
    note f2 = lookupBackup_frame [OF l]
    show ?thesis
    proof (cases r2)
      case (Inl e)
      with assms t \<open>r1 = Inr targetFile\<close> l have "w' = w2" by (simp add: restoreDownload_def)
      with f1 f2 show ?thesis by simp
    next
      case r2: (Inr bm)
      obtain backupBlob metadata where bm: "bm = (backupBlob, metadata)"
        by (cases bm)
      obtain r3 w3 where f: "fetch rt (url backupBlob) w2 = (r3, w3)"
        by (cases "fetch rt (url backupBlob) w2")
      from assms t \<open>r1 = Inr targetFile\<close> l r2 bm f have "w' = w3"
        by (auto simp: restoreDownload_def split: sum.splits)
      with fetch_frame [OF f] f1 f2 show ?thesis by simp
    qed
  qed
qed

lemma decodeBackup_errors:
  "decodeBackup lib env encrypted metadata = Inl e \<Longrightarrow>
     e = CipherError \<or> e = GunzipError \<or> e = ChecksumMismatch \<or> e = InvalidSQLiteFormat"
  by (auto simp: decodeBackup_def decrypt_def Let_def split: sum.splits option.splits if_splits)

lemma restore_after_download:
  assumes "getBlobToken env \<noteq> []"
    and "restoreDownload lib rt filename w = (Inr (encrypted, metadata), w1)"
  shows "restoreFromBackup lib env rt filename w =
           (case decodeBackup lib env encrypted metadata of
              Inl e \<Rightarrow> (Inl e, w1)
            | Inr dbBuffer \<Rightarrow> installDatabase env rt dbBuffer w1)"
  using assms by (simp add: restoreFromBackup_def)

text \<open>
  C2. When the token is configured and the download has delivered an artifact (with or
  without metadata), each of the four failures makes \<open>restoreFromBackup\<close> raise and
  leaves the world as the download left it, where every file on the disk is as it was
  and no copy or write was issued: the decipher refusing the nonce, tag and ciphertext
  cut from the artifact gives the cipher's error; a decrypted text that does not
  decompress gives the decompression error; a decompressed text whose digest differs
  from the checksum of the metadata gives the checksum error; and, the checksum being
  absent or equal, a decompressed text that does not begin with the SQLite magic gives
  the format error.
\<close>

theorem restore_failed_decode_no_mutation:
  assumes tok: "getBlobToken env \<noteq> []"
    and dl: "restoreDownload lib rt filename w = (Inr (encrypted, metadata), w1)"
  shows "(aes_gcm_decrypt lib (getBackupKey env) (take 16 encrypted)
            (take 16 (drop 16 encrypted)) (drop 32 encrypted) = None \<longrightarrow>
          restoreFromBackup lib env rt filename w = (Inl CipherError, w1))
       \<and> (aes_gcm_decrypt lib (getBackupKey env) (take 16 encrypted)
            (take 16 (drop 16 encrypted)) (drop 32 encrypted) = Some compressed
          \<and> gunzip lib compressed = None \<longrightarrow>
          restoreFromBackup lib env rt filename w = (Inl GunzipError, w1))
       \<and> (aes_gcm_decrypt lib (getBackupKey env) (take 16 encrypted)
            (take 16 (drop 16 encrypted)) (drop 32 encrypted) = Some compressed
          \<and> gunzip lib compressed = Some dbBuffer
          \<and> metadata = Some m \<and> sha256_hex lib dbBuffer \<noteq> checksum m \<longrightarrow>
          restoreFromBackup lib env rt filename w = (Inl ChecksumMismatch, w1))
       \<and> (aes_gcm_decrypt lib (getBackupKey env) (take 16 encrypted)
            (take 16 (drop 16 encrypted)) (drop 32 encrypted) = Some compressed
          \<and> gunzip lib compressed = Some dbBuffer
          \<and> (case metadata of None \<Rightarrow> True | Some m' \<Rightarrow> sha256_hex lib dbBuffer = checksum m')
          \<and> \<not> startsWith (take 16 dbBuffer) sqlite_magic \<longrightarrow>
          restoreFromBackup lib env rt filename w = (Inl InvalidSQLiteFormat, w1))
       \<and> files w1 = files w \<and> disk_log w1 = disk_log w"
proof (intro conjI impI)
  note run = restore_after_download [OF tok dl]
  show "restoreFromBackup lib env rt filename w = (Inl CipherError, w1)"
    if "aes_gcm_decrypt lib (getBackupKey env) (take 16 encrypted)
          (take 16 (drop 16 encrypted)) (drop 32 encrypted) = None"
    using that by (simp add: run decodeBackup_def decrypt_def)
  show "restoreFromBackup lib env rt filename w = (Inl GunzipError, w1)"
    if "aes_gcm_decrypt lib (getBackupKey env) (take 16 encrypted)
          (take 16 (drop 16 encrypted)) (drop 32 encrypted) = Some compressed
        \<and> gunzip lib compressed = None"
    using that by (simp add: run decodeBackup_def decrypt_def)
  show "restoreFromBackup lib env rt filename w = (Inl ChecksumMismatch, w1)"
    if "aes_gcm_decrypt lib (getBackupKey env) (take 16 encrypted)
          (take 16 (drop 16 encrypted)) (drop 32 encrypted) = Some compressed
        \<and> gunzip lib compressed = Some dbBuffer
        \<and> metadata = Some m \<and> sha256_hex lib dbBuffer \<noteq> checksum m"
    using that by (simp add: run decodeBackup_def decrypt_def)
  show "restoreFromBackup lib env rt filename w = (Inl InvalidSQLiteFormat, w1)"
    if "aes_gcm_decrypt lib (getBackupKey env) (take 16 encrypted)
          (take 16 (drop 16 encrypted)) (drop 32 encrypted) = Some compressed
        \<and> gunzip lib compressed = Some dbBuffer
        \<and> (case metadata of None \<Rightarrow> True | Some m' \<Rightarrow> sha256_hex lib dbBuffer = checksum m')
        \<and> \<not> startsWith (take 16 dbBuffer) sqlite_magic"
    using that by (cases metadata) (simp_all add: run decodeBackup_def decrypt_def)
  show "files w1 = files w" and "disk_log w1 = disk_log w"
    using restoreDownload_frame [OF dl] by simp_all
qed

section \<open>Runs on the small instance\<close>

lemma demo_token: "getBlobToken demo_env \<noteq> []"
  by (simp add: getBlobToken_def demo_env_def)

lemma is_meta_append: "is_meta (p @ ''.meta.json'')"
  by (simp add: is_meta_def endsWith_def)

lemma demo_not_meta: "\<not> is_meta demo_name"
  by (simp add: is_meta_def endsWith_def demo_name_def)

lemma demo_daily: "startsWith demo_name (BACKUP_PREFIX @ ''/daily/'')"
  by (simp add: startsWith_def demo_name_def BACKUP_PREFIX_def)

lemma demo_short_name: "startsWith demo_name ''nanoclaw-backup/daily/2026-02-27_1''"
  by (simp add: startsWith_def demo_name_def)

lemma resolve_demo_latest:
  "resolveTarget demo_rt None (demo_world c)
     = (Inr demo_name, (demo_world c)\<lparr>net_log := [NetList (BACKUP_PREFIX @ ''/daily/'')]\<rparr>)"
  by (simp add: resolveTarget_def list_blobs_def demo_rt_def demo_world_def demo_blob_def
      demo_daily demo_not_meta latest_first_def)

lemma resolve_given:
  "f \<noteq> [] \<Longrightarrow> resolveTarget rt (Some f) w = (Inr f, w)"
  by (simp add: resolveTarget_def)

lemma lookup_demo:
  assumes "startsWith demo_name target"
  shows "lookupBackup lib demo_rt target ((demo_world c)\<lparr>net_log := l\<rparr>)
           = (Inr (demo_blob c, None), (demo_world c)\<lparr>net_log := l @ [NetList target]\<rparr>)"
proof -
  have "demo_name \<noteq> target @ ''.meta.json''"
    using demo_not_meta is_meta_append by metis
  then show ?thesis
    using assms
    by (simp add: lookupBackup_def list_blobs_def demo_rt_def demo_world_def demo_blob_def)
qed

lemma fetch_demo:
  "fetch demo_rt (url (demo_blob c)) ((demo_world c)\<lparr>net_log := l\<rparr>)
     = (Inr c, (demo_world c)\<lparr>net_log := l @ [NetFetch (store_url demo_name)]\<rparr>)"
  by (simp add: fetch_def demo_rt_def demo_world_def demo_blob_def)

lemma download_demo_latest:
  "restoreDownload lib demo_rt None (demo_world c)
     = (Inr (c, None),
        (demo_world c)\<lparr>net_log := [NetList (BACKUP_PREFIX @ ''/daily/''), NetList demo_name,
                                     NetFetch (store_url demo_name)]\<rparr>)"
proof -
  have "startsWith demo_name demo_name"
    by (simp add: startsWith_def)
  from lookup_demo [OF this] show ?thesis
    by (simp add: restoreDownload_def resolve_demo_latest fetch_demo)
qed

lemma download_demo_short_name:
  "restoreDownload lib demo_rt (Some ''nanoclaw-backup/daily/2026-02-27_1'') (demo_world c)
     = (Inr (c, None),
        (demo_world c)\<lparr>net_log := [NetList ''nanoclaw-backup/daily/2026-02-27_1'',
                                     NetFetch (store_url demo_name)]\<rparr>)"
proof -
  have w: "demo_world c = (demo_world c)\<lparr>net_log := []\<rparr>"
    by (simp add: demo_world_def)
  have "lookupBackup lib demo_rt ''nanoclaw-backup/daily/2026-02-27_1'' (demo_world c)
          = (Inr (demo_blob c, None),
             (demo_world c)\<lparr>net_log := [NetList ''nanoclaw-backup/daily/2026-02-27_1'']\<rparr>)"
    using lookup_demo [OF demo_short_name, where lib = lib and c = c and l = "[]"] w by simp
  then show ?thesis
    by (simp add: restoreDownload_def resolve_given fetch_demo)
qed

lemma demo_seal_encrypt:
  "encrypt demo_lib demo_env (replicate 16 7) plain = Inr (demo_seal plain)"
  by (simp add: encrypt_def demo_lib_def demo_encrypt_def demo_key_length demo_seal_def)

lemma demo_seal_decrypt: "decrypt demo_lib demo_env (demo_seal plain) = Inr plain"
proof -
  have "length (replicate 16 (7 :: 8 word)) = 16" by simp
  from decrypt_encrypt [OF demo_contract demo_key_length this, of plain]
  show ?thesis by (simp add: demo_seal_encrypt)
qed

lemma demo_artifact_decodes:
  "decodeBackup demo_lib demo_env (demo_seal (demo_gzip demo_db)) None = Inr demo_db"
proof -
  have "gunzip demo_lib (demo_gzip demo_db) = Some demo_db"
    by (simp add: demo_lib_def demo_gzip_roundtrip)
  moreover have "startsWith (take 16 demo_db) sqlite_magic"
    by (simp add: demo_db_def startsWith_def sqlite_magic_def ascii_def)
  ultimately show ?thesis
    by (simp add: decodeBackup_def demo_seal_decrypt)
qed

lemma demo_undecodable:
  "decodeBackup demo_lib demo_env (demo_seal [1, 2, 3]) None = Inl GunzipError"
proof -
  have "gunzip demo_lib [1, 2, 3] = None"
    by (simp add: demo_lib_def demo_gunzip_def)
  then show ?thesis
    by (simp add: decodeBackup_def demo_seal_decrypt)
qed

lemma demo_seal_parts:
  "aes_gcm_decrypt demo_lib (getBackupKey demo_env) (take 16 (demo_seal plain))
     (take 16 (drop 16 (demo_seal plain))) (drop 32 (demo_seal plain)) = Some plain"
  using demo_seal_decrypt [of plain]
  by (simp add: decrypt_def split: option.splits)

lemma tampered_parts:
  "aes_gcm_decrypt demo_lib (getBackupKey demo_env) (take 16 tampered_artifact)
     (take 16 (drop 16 tampered_artifact)) (drop 32 tampered_artifact) = None"
proof -
  define x where "x = sum_list (getBackupKey demo_env) + sum_list (replicate 16 (7 :: 8 word))"
  have t: "tampered_artifact = replicate 16 7 @ replicate 16 (x + 5) @ [6]"
    by (simp add: tampered_artifact_def demo_tag_def x_def)
  have iv: "take 16 tampered_artifact = replicate 16 7"
    and tag: "take 16 (drop 16 tampered_artifact) = replicate 16 (x + 5)"
    and data: "drop 32 tampered_artifact = [6]"
    by (simp_all add: t)
  have "demo_tag (getBackupKey demo_env) (replicate 16 7) [6] = replicate 16 (x + 6)"
    by (simp add: demo_tag_def x_def)
  moreover have "replicate 16 (x + 5) \<noteq> replicate 16 (x + 6)"
    by (simp add: replicate_eq_replicate)
  ultimately show ?thesis
    by (simp add: iv tag data demo_lib_def demo_decrypt_def)
qed

lemma demo_bad_header: "\<not> startsWith (take 16 [1, 2, 3 :: 8 word]) sqlite_magic"
  by (simp add: startsWith_def sqlite_magic_def ascii_def)

lemma demo_daily_meta: "startsWith (demo_name @ ''.meta.json'') (BACKUP_PREFIX @ ''/daily/'')"
  using demo_daily by (simp add: startsWith_def demo_name_def BACKUP_PREFIX_def)

lemma download_demo_meta:
  "restoreDownload demo_lib demo_rt None (demo_world_meta c mt)
     = (Inr (c, Some \<lparr>version = ''1.0'', timestamp = [], size = 0,
                      checksum = map (\<lambda>w. char_of (unat w)) mt, sqliteVersion = ''3.x''\<rparr>),
        (demo_world_meta c mt)\<lparr>net_log := [NetList (BACKUP_PREFIX @ ''/daily/''), NetList demo_name,
                                      NetFetch (store_url (demo_name @ ''.meta.json'')),
                                      NetFetch (store_url demo_name)]\<rparr>)"
proof -
  let ?W = "demo_world_meta c mt"
  have ne: "demo_name \<noteq> demo_name @ ''.meta.json''"
    by simp
  have r: "resolveTarget demo_rt None ?W
             = (Inr demo_name, ?W\<lparr>net_log := [NetList (BACKUP_PREFIX @ ''/daily/'')]\<rparr>)"
    by (simp add: resolveTarget_def list_blobs_def demo_rt_def demo_world_meta_def demo_blob_def
        demo_meta_blob_def demo_daily demo_daily_meta demo_not_meta is_meta_append latest_first_def)
  have l: "lookupBackup demo_lib demo_rt demo_name
             (?W\<lparr>net_log := [NetList (BACKUP_PREFIX @ ''/daily/'')]\<rparr>)
           = (Inr (demo_blob c, Some \<lparr>version = ''1.0'', timestamp = [], size = 0,
                      checksum = map (\<lambda>w. char_of (unat w)) mt, sqliteVersion = ''3.x''\<rparr>),
              ?W\<lparr>net_log := [NetList (BACKUP_PREFIX @ ''/daily/''), NetList demo_name,
                               NetFetch (store_url (demo_name @ ''.meta.json''))]\<rparr>)"
    by (simp add: lookupBackup_def list_blobs_def fetch_def demo_rt_def demo_world_meta_def
        demo_blob_def demo_meta_blob_def startsWith_def store_url_def demo_lib_def demo_parse_def)
  have f: "fetch demo_rt (url (demo_blob c))
             (?W\<lparr>net_log := [NetList (BACKUP_PREFIX @ ''/daily/''), NetList demo_name,
                               NetFetch (store_url (demo_name @ ''.meta.json''))]\<rparr>)
           = (Inr c,
              ?W\<lparr>net_log := [NetList (BACKUP_PREFIX @ ''/daily/''), NetList demo_name,
                               NetFetch (store_url (demo_name @ ''.meta.json'')),
                               NetFetch (store_url demo_name)]\<rparr>)"
    by (simp add: fetch_def demo_rt_def demo_world_meta_def demo_blob_def demo_meta_blob_def)
  show ?thesis
    by (simp add: restoreDownload_def r l f)
qed

text \<open>
  C2 on the small instance, with a live database file in place: an artifact whose
  ciphertext was changed, one that decrypts to bytes that are no gzip stream, a valid
  one beside metadata with another checksum, and one that decompresses to bytes without
  the SQLite magic. Each restore raises its error, the live file holds its former bytes
  and no disk call was made.
\<close>

theorem restore_failed_decode_no_mutation_witness:
  "restoreFromBackup demo_lib demo_env demo_rt None (demo_world tampered_artifact)
     = (Inl CipherError,
        (demo_world tampered_artifact)\<lparr>net_log := [NetList (BACKUP_PREFIX @ ''/daily/''),
           NetList demo_name, NetFetch (store_url demo_name)]\<rparr>)
   \<and> restoreFromBackup demo_lib demo_env demo_rt None (demo_world (demo_seal [1, 2, 3]))
     = (Inl GunzipError,
        (demo_world (demo_seal [1, 2, 3]))\<lparr>net_log := [NetList (BACKUP_PREFIX @ ''/daily/''),
           NetList demo_name, NetFetch (store_url demo_name)]\<rparr>)
   \<and> restoreFromBackup demo_lib demo_env demo_rt None
        (demo_world_meta (demo_seal (demo_gzip demo_db)) [])
     = (Inl ChecksumMismatch,
        (demo_world_meta (demo_seal (demo_gzip demo_db)) [])\<lparr>net_log :=
           [NetList (BACKUP_PREFIX @ ''/daily/''), NetList demo_name,
            NetFetch (store_url (demo_name @ ''.meta.json'')), NetFetch (store_url demo_name)]\<rparr>)
   \<and> restoreFromBackup demo_lib demo_env demo_rt None (demo_world (demo_seal (demo_gzip [1, 2, 3])))
     = (Inl InvalidSQLiteFormat,
        (demo_world (demo_seal (demo_gzip [1, 2, 3])))\<lparr>net_log :=
           [NetList (BACKUP_PREFIX @ ''/daily/''), NetList demo_name,
            NetFetch (store_url demo_name)]\<rparr>)
   \<and> files (demo_world tampered_artifact) (dbPath demo_env) = Some (ascii ''old database'')
   \<and> disk_log (demo_world tampered_artifact) = []"
proof (intro conjI)
  show "restoreFromBackup demo_lib demo_env demo_rt None (demo_world tampered_artifact)
     = (Inl CipherError,
        (demo_world tampered_artifact)\<lparr>net_log := [NetList (BACKUP_PREFIX @ ''/daily/''),
           NetList demo_name, NetFetch (store_url demo_name)]\<rparr>)"
    using restore_failed_decode_no_mutation [OF demo_token download_demo_latest, THEN conjunct1]
      tampered_parts by blast
  show "restoreFromBackup demo_lib demo_env demo_rt None (demo_world (demo_seal [1, 2, 3]))
     = (Inl GunzipError,
        (demo_world (demo_seal [1, 2, 3]))\<lparr>net_log := [NetList (BACKUP_PREFIX @ ''/daily/''),
           NetList demo_name, NetFetch (store_url demo_name)]\<rparr>)"
  proof -
    have "gunzip demo_lib [1, 2, 3] = None"
      by (simp add: demo_lib_def demo_gunzip_def)
    with restore_failed_decode_no_mutation
      [OF demo_token download_demo_latest, THEN conjunct2, THEN conjunct1]
      demo_seal_parts
    show ?thesis by blast
  qed
  show "restoreFromBackup demo_lib demo_env demo_rt None
        (demo_world_meta (demo_seal (demo_gzip demo_db)) [])
     = (Inl ChecksumMismatch,
        (demo_world_meta (demo_seal (demo_gzip demo_db)) [])\<lparr>net_log :=
           [NetList (BACKUP_PREFIX @ ''/daily/''), NetList demo_name,
            NetFetch (store_url (demo_name @ ''.meta.json'')), NetFetch (store_url demo_name)]\<rparr>)"
  proof -
    have g: "gunzip demo_lib (demo_gzip demo_db) = Some demo_db"
      by (simp add: demo_lib_def demo_gzip_roundtrip)
    have c: "sha256_hex demo_lib demo_db
               \<noteq> checksum \<lparr>version = ''1.0'', timestamp = [], size = 0,
                      checksum = map (\<lambda>w. char_of (unat w)) [], sqliteVersion = ''3.x''\<rparr>"
      by (simp add: demo_lib_def demo_sha_def demo_db_def ascii_def)
    from restore_failed_decode_no_mutation
      [OF demo_token download_demo_meta, THEN conjunct2, THEN conjunct2, THEN conjunct1]
      demo_seal_parts g c
    show ?thesis by blast
  qed
  show "restoreFromBackup demo_lib demo_env demo_rt None (demo_world (demo_seal (demo_gzip [1, 2, 3])))
     = (Inl InvalidSQLiteFormat,
        (demo_world (demo_seal (demo_gzip [1, 2, 3])))\<lparr>net_log :=
           [NetList (BACKUP_PREFIX @ ''/daily/''), NetList demo_name,
            NetFetch (store_url demo_name)]\<rparr>)"
  proof -
    have g: "gunzip demo_lib (demo_gzip [1, 2, 3]) = Some [1, 2, 3]"
      by (simp add: demo_lib_def demo_gzip_roundtrip)
    have n: "(case None :: BackupMetadata option of None \<Rightarrow> True
              | Some m' \<Rightarrow> sha256_hex demo_lib [1, 2, 3] = checksum m')"
      by simp
    from restore_failed_decode_no_mutation
      [OF demo_token download_demo_latest, THEN conjunct2, THEN conjunct2, THEN conjunct2,
        THEN conjunct1]
      demo_seal_parts g n demo_bad_header
    show ?thesis by blast
  qed
  show "files (demo_world tampered_artifact) (dbPath demo_env) = Some (ascii ''old database'')"
    and "disk_log (demo_world tampered_artifact) = []"
    by (simp_all add: demo_world_def)
qed

section \<open>Restoring: the safety copy\<close>

lemma localBackup_neq: "localBackup env rt \<noteq> dbPath env"
  by (simp add: localBackup_def)

lemma installDatabase_existing:
  assumes "files w (dbPath env) = Some current"
  shows "installDatabase env rt dbBuffer w =
     (if copy_fails rt then
        (Inl FsError, w\<lparr>disk_log := disk_log w @ [FsCopy (dbPath env) (localBackup env rt)]\<rparr>)
      else if write_fails rt then
        (Inl FsError,
         w\<lparr>disk_log := disk_log w @ [FsCopy (dbPath env) (localBackup env rt), FsWrite (dbPath env)],
           files := (files w)(localBackup env rt \<mapsto> current, dbPath env := torn rt)\<rparr>)
      else
        (Inr (),
         w\<lparr>disk_log := disk_log w @ [FsCopy (dbPath env) (localBackup env rt), FsWrite (dbPath env)],
           files := (files w)(localBackup env rt \<mapsto> current, dbPath env \<mapsto> dbBuffer)\<rparr>))"
  using assms by (simp add: installDatabase_def Let_def)

lemma digit_char_inj: "a < 10 \<Longrightarrow> b < 10 \<Longrightarrow> digit_char a = digit_char b \<Longrightarrow> a = b"
proof -
  assume a: "a < 10" and b: "b < 10" and e: "digit_char a = digit_char b"
  then have "of_char (char_of (48 + a) :: char) = (of_char (char_of (48 + b) :: char) :: nat)"
    by (simp add: digit_char_def)
  with a b show "a = b"
    by (simp add: of_char_of)
qed

lemma dec_nat_not_Nil: "dec_nat n \<noteq> []"
  by (subst dec_nat.simps) simp

lemma dec_nat_inj: "dec_nat n = dec_nat m \<Longrightarrow> n = m"
proof (induction n arbitrary: m rule: dec_nat.induct)
  case (1 n)
  show ?case
  proof (cases "n < 10")
    case True
    then have n: "dec_nat n = [digit_char n]"
      by (subst dec_nat.simps) simp
    show ?thesis
    proof (cases "m < 10")
      case m: True
      then have "dec_nat m = [digit_char m]"
        by (subst dec_nat.simps) simp
      with n "1.prems" True m show ?thesis
        by (auto dest: digit_char_inj)
    next
      case False
      then have "dec_nat m = dec_nat (m div 10) @ [digit_char (m mod 10)]"
        by (subst dec_nat.simps) simp
      with n "1.prems" dec_nat_not_Nil [of "m div 10"] show ?thesis
        by (cases "dec_nat (m div 10)") auto
    qed
  next
    case False
    then have n: "dec_nat n = dec_nat (n div 10) @ [digit_char (n mod 10)]"
      by (subst dec_nat.simps) simp
    show ?thesis
    proof (cases "m < 10")
      case True
      then have "dec_nat m = [digit_char m]"
        by (subst dec_nat.simps) simp
      with n "1.prems" dec_nat_not_Nil [of "n div 10"] show ?thesis
        by (cases "dec_nat (n div 10)") auto
    next
      case m: False
      then have "dec_nat m = dec_nat (m div 10) @ [digit_char (m mod 10)]"
        by (subst dec_nat.simps) simp
      with n "1.prems" have d: "dec_nat (n div 10) = dec_nat (m div 10)"
        and l: "digit_char (n mod 10) = digit_char (m mod 10)"
        by auto
      from "1.IH" [OF False d] have "n div 10 = m div 10" .
      moreover from l have "n mod 10 = m mod 10"
        by (rule digit_char_inj [rotated 2]) simp_all
      ultimately show ?thesis
        by (metis div_mult_mod_eq)
    qed
  qed
qed

lemma digit_not_minus: "hd (dec_nat n) \<noteq> CHR ''-''"
proof (induction n rule: dec_nat.induct)
  case (1 n)
  show ?case
  proof (cases "n < 10")
    case True
    then have "dec_nat n = [digit_char n]"
      by (subst dec_nat.simps) simp
    moreover have "of_char (digit_char n) = 48 + n"
      using True by (simp add: digit_char_def of_char_of)
    moreover have "digit_char n \<noteq> CHR ''-''"
    proof
      assume "digit_char n = CHR ''-''"
      then have "(of_char (digit_char n) :: nat) = of_char CHR ''-''"
        by (rule arg_cong)
      with \<open>of_char (digit_char n) = 48 + n\<close> show False
        by simp
    qed
    ultimately show ?thesis
      by simp
  next
    case False
    then have "dec_nat n = dec_nat (n div 10) @ [digit_char (n mod 10)]"
      by (subst dec_nat.simps) simp
    with "1.IH" [OF False] dec_nat_not_Nil [of "n div 10"] show ?thesis
      by simp
  qed
qed

lemma dec_int_inj: "dec_int i = dec_int j \<Longrightarrow> i = j"
proof -
  assume e: "dec_int i = dec_int j"
  have neg: "hd (dec_int k) = CHR ''-'' \<longleftrightarrow> k < 0" for k
    using digit_not_minus [of "nat k"] by (simp add: dec_int_def)
  from e have s: "i < 0 \<longleftrightarrow> j < 0"
    using neg [of i] neg [of j] by simp
  show "i = j"
  proof (cases "i < 0")
    case True
    with s e have "dec_nat (nat (- i)) = dec_nat (nat (- j))"
      by (simp add: dec_int_def)
    then have "nat (- i) = nat (- j)" by (rule dec_nat_inj)
    with True s show ?thesis by simp
  next
    case False
    with s e have "dec_nat (nat i) = dec_nat (nat j)"
      by (simp add: dec_int_def)
    then have "nat i = nat j" by (rule dec_nat_inj)
    with False s show ?thesis by simp
  qed
qed

lemma digit_chars:
  "digit_char 0 = CHR ''0''" "digit_char 1 = CHR ''1''" "digit_char 2 = CHR ''2''"
  "digit_char 3 = CHR ''3''" "digit_char 4 = CHR ''4''" "digit_char 5 = CHR ''5''"
  "digit_char 6 = CHR ''6''" "digit_char 7 = CHR ''7''" "digit_char 8 = CHR ''8''"
  "digit_char 9 = CHR ''9''" "digit_char (Suc 0) = CHR ''1''"
  by code_simp+

lemma demo_paths:
  "dbPath demo_env = ''/store/messages.db''"
  "dbPath demo_env @ ''.bak.'' @ dec_int (now demo_rt) = ''/store/messages.db.bak.1773576000000''"
  by (simp_all add: dbPath_def demo_env_def demo_rt_def dec_int_def dec_nat.simps digit_chars)

text \<open>
  C4. When decoding succeeded and a live database file exists, the run first copies the
  live file to the live path with \<open>.bak.\<close> and the decimal clock reading appended, a
  path that another clock reading never gives, and only then writes the decoded bytes
  to the live path. A failing copy ends the run with an error, no write issued and every
  file as it was; a failing write after the copy ends it with an error, the safety copy
  in place. The run succeeds exactly when neither fails, and then the disk differs from
  before in two places only: the safety copy holds the former live bytes and the live
  path holds the decoded bytes; when no file was at the safety-copy path before, the
  safety copy is the one new file on the disk.
\<close>

theorem restore_safety_copy:
  assumes tok: "getBlobToken env \<noteq> []"
    and dl: "restoreDownload lib rt filename w = (Inr (encrypted, metadata), w1)"
    and dec: "decodeBackup lib env encrypted metadata = Inr dbBuffer"
    and live: "files w (dbPath env) = Some current"
    and run: "restoreFromBackup lib env rt filename w = (r, w')"
  shows "(copy_fails rt \<longrightarrow>
            r = Inl FsError \<and> files w' = files w
            \<and> disk_log w'
                = disk_log w @ [FsCopy (dbPath env) (dbPath env @ ''.bak.'' @ dec_int (now rt))])
         \<and> (\<not> copy_fails rt \<and> write_fails rt \<longrightarrow>
              r = Inl FsError
              \<and> files w' = (files w)(dbPath env @ ''.bak.'' @ dec_int (now rt) \<mapsto> current,
                                      dbPath env := torn rt)
              \<and> disk_log w'
                  = disk_log w @ [FsCopy (dbPath env) (dbPath env @ ''.bak.'' @ dec_int (now rt)),
                                  FsWrite (dbPath env)])
         \<and> (r = Inr () \<longleftrightarrow> \<not> copy_fails rt \<and> \<not> write_fails rt)
         \<and> (r = Inr () \<longrightarrow>
              files w' = (files w)(dbPath env @ ''.bak.'' @ dec_int (now rt) \<mapsto> current,
                                   dbPath env \<mapsto> dbBuffer)
              \<and> files w' (dbPath env @ ''.bak.'' @ dec_int (now rt)) = Some current
              \<and> files w' (dbPath env) = Some dbBuffer
              \<and> disk_log w'
                  = disk_log w @ [FsCopy (dbPath env) (dbPath env @ ''.bak.'' @ dec_int (now rt)),
                                  FsWrite (dbPath env)])
         \<and> (r = Inr () \<and> files w (dbPath env @ ''.bak.'' @ dec_int (now rt)) = None \<longrightarrow>
              dbPath env @ ''.bak.'' @ dec_int (now rt) \<notin> dom (files w)
              \<and> dom (files w') = insert (dbPath env @ ''.bak.'' @ dec_int (now rt)) (dom (files w)))
         \<and> (\<forall>rt'. now rt' \<noteq> now rt \<longrightarrow>
               dbPath env @ ''.bak.'' @ dec_int (now rt') \<noteq> dbPath env @ ''.bak.'' @ dec_int (now rt))"
proof -
  let ?bak = "dbPath env @ ''.bak.'' @ dec_int (now rt)"
  have bak: "localBackup env rt = ?bak"
    by (simp add: localBackup_def)
  have neq: "?bak \<noteq> dbPath env"
    by simp
  note fr = restoreDownload_frame [OF dl]
  have live1: "files w1 (dbPath env) = Some current"
    using fr live by simp
  have "restoreFromBackup lib env rt filename w = installDatabase env rt dbBuffer w1"
    using tok dl dec by (simp add: restoreFromBackup_def)
  with run have inst: "installDatabase env rt dbBuffer w1 = (r, w')"
    by simp
  have clock: "\<forall>rt'. now rt' \<noteq> now rt \<longrightarrow> dbPath env @ ''.bak.'' @ dec_int (now rt') \<noteq> ?bak"
    using dec_int_inj by auto
  have in_dom: "dbPath env \<in> dom (files w)"
    using live by auto
  show ?thesis
  proof (cases "copy_fails rt")
    case True
    with inst fr clock show ?thesis
      by (auto simp: installDatabase_existing [OF live1] bak)
  next
    case False
    show ?thesis
    proof (cases "write_fails rt")
      case True
      with False inst fr clock show ?thesis
        by (auto simp: installDatabase_existing [OF live1] bak)
    next
      case nw: False
      from False nw inst have r: "r = Inr ()"
        and w': "w' = w1\<lparr>disk_log := disk_log w1 @ [FsCopy (dbPath env) ?bak, FsWrite (dbPath env)],
                          files := (files w1)(?bak \<mapsto> current, dbPath env \<mapsto> dbBuffer)\<rparr>"
        by (simp_all add: installDatabase_existing [OF live1] bak)
      have f: "files w' = (files w)(?bak \<mapsto> current, dbPath env \<mapsto> dbBuffer)"
        and l: "disk_log w' = disk_log w @ [FsCopy (dbPath env) ?bak, FsWrite (dbPath env)]"
        using w' fr by simp_all
      have d: "dom (files w') = insert ?bak (dom (files w))"
        unfolding f using in_dom by auto
      have at: "files w' ?bak = Some current" "files w' (dbPath env) = Some dbBuffer"
        unfolding f using neq by simp_all
      from False nw r f l d at clock show ?thesis
        by (simp add: domIff)
    qed
  qed
qed

text \<open>
  C4 on the small instance: a valid artifact is restored over an existing live file at
  the clock reading 1773576000000; afterwards the disk holds the live file and the
  safety copy, and nothing else.
\<close>

theorem restore_safety_copy_witness:
  "fst (restoreFromBackup demo_lib demo_env demo_rt None
          (demo_world (demo_seal (demo_gzip demo_db)))) = Inr ()
   \<and> files (snd (restoreFromBackup demo_lib demo_env demo_rt None
                   (demo_world (demo_seal (demo_gzip demo_db)))))
        ''/store/messages.db.bak.1773576000000'' = Some (ascii ''old database'')
   \<and> files (snd (restoreFromBackup demo_lib demo_env demo_rt None
                   (demo_world (demo_seal (demo_gzip demo_db)))))
        ''/store/messages.db'' = Some demo_db
   \<and> dom (files (demo_world (demo_seal (demo_gzip demo_db)))) = {''/store/messages.db''}
   \<and> dom (files (snd (restoreFromBackup demo_lib demo_env demo_rt None
                        (demo_world (demo_seal (demo_gzip demo_db))))))
        = {''/store/messages.db.bak.1773576000000'', ''/store/messages.db''}
   \<and> disk_log (snd (restoreFromBackup demo_lib demo_env demo_rt None
                      (demo_world (demo_seal (demo_gzip demo_db)))))
        = [FsCopy ''/store/messages.db'' ''/store/messages.db.bak.1773576000000'',
           FsWrite ''/store/messages.db'']"
proof -
  let ?w = "demo_world (demo_seal (demo_gzip demo_db))"
  let ?R = "restoreFromBackup demo_lib demo_env demo_rt None ?w"
  have live: "files ?w (dbPath demo_env) = Some (ascii ''old database'')"
    by (simp add: demo_world_def)
  have run: "?R = (fst ?R, snd ?R)"
    by simp
  have ok: "\<not> copy_fails demo_rt" "\<not> write_fails demo_rt"
    by (simp_all add: demo_rt_def)
  have dom0: "dom (files ?w) = {''/store/messages.db''}"
    by (simp add: demo_world_def demo_paths)
  have log0: "disk_log ?w = []"
    by (simp add: demo_world_def)
  have free: "files ?w (dbPath demo_env @ ''.bak.'' @ dec_int (now demo_rt)) = None"
    by (simp add: demo_world_def)
  note T = restore_safety_copy [OF demo_token download_demo_latest demo_artifact_decodes live run]
  from T ok have r: "fst ?R = Inr ()"
    by blast
  from T r have at: "files (snd ?R) (dbPath demo_env @ ''.bak.'' @ dec_int (now demo_rt))
        = Some (ascii ''old database'')"
    "files (snd ?R) (dbPath demo_env) = Some demo_db"
    "disk_log (snd ?R) = disk_log ?w
       @ [FsCopy (dbPath demo_env) (dbPath demo_env @ ''.bak.'' @ dec_int (now demo_rt)),
          FsWrite (dbPath demo_env)]"
    by blast+
  from T r free have d: "dom (files (snd ?R))
        = insert (dbPath demo_env @ ''.bak.'' @ dec_int (now demo_rt)) (dom (files ?w))"
    by blast
  from r at d dom0 log0 show ?thesis
    unfolding demo_paths(2) unfolding demo_paths(1) by simp
qed

section \<open>Restoring: which object is restored\<close>

lemma latest_first_hd:
  assumes "latest_first bs = b # rest"
  shows "b \<in> set bs" and "list_all (\<lambda>b'. uploadedAt b' \<le> uploadedAt b) bs"
proof -
  have s: "set (latest_first bs) = set bs"
    by (simp add: latest_first_def)
  with assms show "b \<in> set bs" by auto
  have "sorted (map (\<lambda>b. - uploadedAt b) (latest_first bs))"
    by (simp add: latest_first_def)
  with assms have "\<forall>b' \<in> set (b # rest). - uploadedAt b \<le> - uploadedAt b'"
    by auto
  with s assms show "list_all (\<lambda>b'. uploadedAt b' \<le> uploadedAt b) bs"
    by (simp add: list_all_iff)
qed

lemma resolveTarget_latest:
  assumes "resolveTarget rt None w = (Inr t, w1)"
  shows "\<exists>b \<in> set (remote w). pathname b = t \<and> \<not> is_meta t
           \<and> startsWith t (BACKUP_PREFIX @ ''/daily/'')
           \<and> list_all (\<lambda>b'. uploadedAt b' \<le> uploadedAt b)
                (filter (\<lambda>b. \<not> is_meta (pathname b))
                   (filter (\<lambda>b. startsWith (pathname b) (BACKUP_PREFIX @ ''/daily/'')) (remote w)))"
proof -
  let ?db = "filter (\<lambda>b. \<not> is_meta (pathname b))
               (filter (\<lambda>b. startsWith (pathname b) (BACKUP_PREFIX @ ''/daily/'')) (remote w))"
  from assms obtain b rest where lf: "latest_first ?db = b # rest" and t: "t = pathname b"
    by (auto simp: resolveTarget_def list_blobs_def Let_def split: if_splits list.splits)
  from latest_first_hd [OF lf] t show ?thesis
    by auto
qed

lemma resolveTarget_none_found:
  assumes "\<not> list_fails rt (BACKUP_PREFIX @ ''/daily/'')"
    and "list_all (\<lambda>b. startsWith (pathname b) (BACKUP_PREFIX @ ''/daily/'') \<longrightarrow> is_meta (pathname b))
           (remote w)"
  shows "fst (resolveTarget rt None w) = Inl NoBackupFound"
proof -
  have "filter (\<lambda>b. \<not> is_meta (pathname b))
          (filter (\<lambda>b. startsWith (pathname b) (BACKUP_PREFIX @ ''/daily/'')) (remote w)) = []"
    using assms(2) by (auto simp: list_all_iff filter_empty_conv)
  then show ?thesis
    using assms(1) by (simp add: resolveTarget_def list_blobs_def latest_first_def)
qed

lemma find_filter_hd: "filter P xs = y # ys \<Longrightarrow> find P xs = Some y"
  by (induction xs) (auto split: if_splits)

lemma lookupBackup_first_match:
  assumes "lookupBackup lib rt targetFile w = (Inr (backupBlob, metadata), w1)"
  shows "find (\<lambda>b. startsWith (pathname b) targetFile) (remote w) = Some backupBlob"
proof -
  from assms obtain rest where
    "filter (\<lambda>b. startsWith (pathname b) targetFile) (remote w) = backupBlob # rest"
    by (auto simp: lookupBackup_def list_blobs_def Let_def
        split: if_splits list.splits option.splits prod.splits sum.splits)
  then show ?thesis
    by (rule find_filter_hd)
qed

lemma lookupBackup_not_found:
  assumes "\<not> list_fails rt t"
  shows "fst (lookupBackup lib rt t w) = Inl (BackupNotFound t)
           \<longleftrightarrow> list_all (\<lambda>b. \<not> startsWith (pathname b) t) (remote w)"
proof (cases "filter (\<lambda>b. startsWith (pathname b) t) (remote w)")
  case Nil
  then have "list_all (\<lambda>b. \<not> startsWith (pathname b) t) (remote w)"
    by (simp add: filter_empty_conv list_all_iff)
  with Nil assms show ?thesis
    by (simp add: lookupBackup_def list_blobs_def)
next
  case (Cons backupBlob rest)
  then have "\<not> list_all (\<lambda>b. \<not> startsWith (pathname b) t) (remote w)"
    by (metis filter_empty_conv list.distinct(1) list_all_iff)
  moreover have "fst (lookupBackup lib rt t w) \<noteq> Inl (BackupNotFound t)"
    using Cons assms
    by (auto simp: lookupBackup_def list_blobs_def fetch_def Let_def
        split: option.splits sum.splits prod.splits if_splits)
  ultimately show ?thesis by simp
qed

text \<open>
  C9. Given a name that is stored nowhere but begins the name of a stored object, the
  restore does not fail with a not-found error: it installs that other object.
\<close>

theorem restore_key_prefix_of_other:
  "fst (restoreFromBackup demo_lib demo_env demo_rt (Some ''nanoclaw-backup/daily/2026-02-27_1'')
          (demo_world (demo_seal (demo_gzip demo_db)))) = Inr ()
   \<and> files (snd (restoreFromBackup demo_lib demo_env demo_rt
                   (Some ''nanoclaw-backup/daily/2026-02-27_1'')
                   (demo_world (demo_seal (demo_gzip demo_db)))))
        (dbPath demo_env) = Some demo_db
   \<and> map pathname (remote (demo_world (demo_seal (demo_gzip demo_db))))
        = [''nanoclaw-backup/daily/2026-02-27_123456.db'']"
proof -
  let ?w = "demo_world (demo_seal (demo_gzip demo_db))"
  let ?w1 = "?w\<lparr>net_log := [NetList ''nanoclaw-backup/daily/2026-02-27_1'',
                             NetFetch (store_url demo_name)]\<rparr>"
  have live: "files ?w1 (dbPath demo_env) = Some (ascii ''old database'')"
    by (simp add: demo_world_def)
  have "restoreFromBackup demo_lib demo_env demo_rt (Some ''nanoclaw-backup/daily/2026-02-27_1'') ?w
          = installDatabase demo_env demo_rt demo_db ?w1"
    by (simp add: restoreFromBackup_def demo_token download_demo_short_name demo_artifact_decodes)
  moreover have "\<not> copy_fails demo_rt \<and> \<not> write_fails demo_rt"
    by (simp add: demo_rt_def)
  ultimately have run: "restoreFromBackup demo_lib demo_env demo_rt
        (Some ''nanoclaw-backup/daily/2026-02-27_1'') ?w
      = (Inr (),
         ?w1\<lparr>disk_log := disk_log ?w1 @ [FsCopy (dbPath demo_env) (localBackup demo_env demo_rt),
                                            FsWrite (dbPath demo_env)],
             files := (files ?w1)(localBackup demo_env demo_rt \<mapsto> ascii ''old database'',
                                   dbPath demo_env \<mapsto> demo_db)\<rparr>)"
    by (simp add: installDatabase_existing [OF live])
  have names: "map pathname (remote ?w) = [''nanoclaw-backup/daily/2026-02-27_123456.db'']"
    by (simp add: demo_world_def demo_blob_def demo_name_def)
  show ?thesis
    unfolding run names by simp
qed

section \<open>Verifying the latest backup\<close>

lemma decrypt_other_codecs:
  "decrypt (lib\<lparr>gunzip := g, sha256_hex := h, json_parse := j\<rparr>) env encrypted
     = decrypt lib env encrypted"
  by (simp add: decrypt_def)

lemma verify_other_codecs:
  "verifyLatestBackup (lib\<lparr>gunzip := g, sha256_hex := h, json_parse := j\<rparr>) env rt w
     = verifyLatestBackup lib env rt w"
  unfolding verifyLatestBackup_def decrypt_other_codecs ..

lemma verify_frame:
  assumes "verifyLatestBackup lib env rt w = (b, w')"
  shows "files w' = files w \<and> disk_log w' = disk_log w \<and> remote w' = remote w"
proof (cases "getBlobToken env = []")
  case True
  with assms show ?thesis by (simp add: verifyLatestBackup_def)
next
  case tok: False
  obtain r1 w1 where l: "list_blobs rt (BACKUP_PREFIX @ ''/daily/'') w = (r1, w1)"
    by (cases "list_blobs rt (BACKUP_PREFIX @ ''/daily/'') w")
  note f1 = list_blobs_frame [OF l]
  show ?thesis
  proof (cases r1)
    case (Inl e)
    with assms tok l f1 show ?thesis by (simp add: verifyLatestBackup_def)
  next
    case (Inr blobs)
    show ?thesis
    proof (cases "latest_first (filter (\<lambda>b. \<not> is_meta (pathname b)) blobs)")
      case Nil
      with assms tok l f1 Inr show ?thesis by (simp add: verifyLatestBackup_def)
    next
      case (Cons latest rest)
      obtain r2 w2 where f: "fetch rt (url latest) w1 = (r2, w2)"
        by (cases "fetch rt (url latest) w1")
      from assms tok l Inr Cons f have "w' = w2"
        by (auto simp: verifyLatestBackup_def split: sum.splits)
      with fetch_frame [OF f] f1 show ?thesis by simp
    qed
  qed
qed

lemma verify_true_iff:
  "fst (verifyLatestBackup lib env rt w) \<longleftrightarrow>
     getBlobToken env \<noteq> [] \<and> \<not> list_fails rt (BACKUP_PREFIX @ ''/daily/'')
     \<and> (\<exists>latest rest stored plain.
           latest_first (filter (\<lambda>b. \<not> is_meta (pathname b))
             (filter (\<lambda>b. startsWith (pathname b) (BACKUP_PREFIX @ ''/daily/'')) (remote w)))
             = latest # rest
           \<and> \<not> fetch_fails rt (url latest)
           \<and> find (\<lambda>b. url b = url latest) (remote w) = Some stored
           \<and> decrypt lib env (body stored) = Inr plain)"
  by (auto simp: verifyLatestBackup_def list_blobs_def fetch_def Let_def
      split: list.splits option.splits sum.splits)

text \<open>
  C5, as amended. \<open>verifyLatestBackup\<close> downloads the latest daily artifact and only
  decrypts it: it answers true exactly when the token is set, the listing and the
  download succeed and decryption succeeds, and false otherwise; decompression, the
  checksum and the metadata take no part, so the answer is the same whatever \<open>gunzip\<close>,
  the digest and the JSON parser do. Nothing on the disk changes and no disk call is made.
\<close>

theorem verify_decrypts_only:
  assumes "verifyLatestBackup lib env rt w = (b, w')"
  shows "files w' = files w \<and> disk_log w' = disk_log w
         \<and> verifyLatestBackup (lib\<lparr>gunzip := g, sha256_hex := h, json_parse := j\<rparr>) env rt w
             = (b, w')
         \<and> (b \<longleftrightarrow>
              getBlobToken env \<noteq> [] \<and> \<not> list_fails rt (BACKUP_PREFIX @ ''/daily/'')
              \<and> (\<exists>latest rest stored plain.
                    latest_first (filter (\<lambda>b. \<not> is_meta (pathname b))
                      (filter (\<lambda>b. startsWith (pathname b) (BACKUP_PREFIX @ ''/daily/''))
                         (remote w)))
                      = latest # rest
                    \<and> \<not> fetch_fails rt (url latest)
                    \<and> find (\<lambda>b. url b = url latest) (remote w) = Some stored
                    \<and> decrypt lib env (body stored) = Inr plain))"
proof -
  have b: "b = fst (verifyLatestBackup lib env rt w)"
    using assms by simp
  have other: "verifyLatestBackup (lib\<lparr>gunzip := g, sha256_hex := h, json_parse := j\<rparr>) env rt w
                 = (b, w')"
    using assms by (simp only: verify_other_codecs)
  from verify_frame [OF assms] other show ?thesis
    unfolding b verify_true_iff by simp
qed

lemma verify_demo:
  assumes "decrypt demo_lib demo_env c = Inr plain"
  shows "verifyLatestBackup demo_lib demo_env demo_rt (demo_world c)
     = (True, (demo_world c)\<lparr>net_log := [NetList (BACKUP_PREFIX @ ''/daily/''),
                                           NetFetch (store_url demo_name)]\<rparr>)"
proof -
  have "list_blobs demo_rt (BACKUP_PREFIX @ ''/daily/'') (demo_world c)
          = (Inr [demo_blob c], (demo_world c)\<lparr>net_log := [NetList (BACKUP_PREFIX @ ''/daily/'')]\<rparr>)"
    by (simp add: list_blobs_def demo_rt_def demo_world_def demo_blob_def demo_daily)
  moreover have "latest_first (filter (\<lambda>b. \<not> is_meta (pathname b)) [demo_blob c]) = [demo_blob c]"
    by (simp add: latest_first_def demo_blob_def demo_not_meta)
  ultimately show ?thesis
    using assms by (simp add: verifyLatestBackup_def demo_token fetch_demo)
qed

text \<open>
  C5 on the small instance: with a \<open>gunzip\<close> that always fails the verification of a
  valid artifact still answers true.
\<close>

theorem verify_decrypts_only_witness:
  "files (snd (verifyLatestBackup demo_lib demo_env demo_rt
                 (demo_world (demo_seal (demo_gzip demo_db)))))
     = files (demo_world (demo_seal (demo_gzip demo_db)))
   \<and> fst (verifyLatestBackup (demo_lib\<lparr>gunzip := (\<lambda>c. None), sha256_hex := (\<lambda>b. []),
                                         json_parse := (\<lambda>b. None)\<rparr>)
            demo_env demo_rt (demo_world (demo_seal (demo_gzip demo_db))))"
proof -
  let ?w = "demo_world (demo_seal (demo_gzip demo_db))"
  note run = verify_demo [OF demo_seal_decrypt, of "demo_gzip demo_db"]
  from verify_decrypts_only [OF run, of "\<lambda>c. None" "\<lambda>b. []" "\<lambda>b. None"]
  show ?thesis by (simp add: run)
qed

text \<open>
  C5 as stated fails: the latest artifact decrypts to bytes that are no gzip stream;
  verification answers true, while restoring that artifact fails at decompression.
\<close>

theorem verify_skips_decompression_counterexample:
  "fst (verifyLatestBackup demo_lib demo_env demo_rt (demo_world (demo_seal [1, 2, 3])))
   \<and> fst (restoreFromBackup demo_lib demo_env demo_rt None (demo_world (demo_seal [1, 2, 3])))
       = Inl GunzipError"
  by (simp add: verify_demo [OF demo_seal_decrypt] restoreFromBackup_def demo_token
      download_demo_latest demo_undecodable)

section \<open>A missing token\<close>

lemma no_token: "BLOB_READ_WRITE_TOKEN env = None \<or> BLOB_READ_WRITE_TOKEN env = Some []
    \<Longrightarrow> getBlobToken env = []"
  by (auto simp: getBlobToken_def)

lemma createSafeBackup_net:
  "createSafeBackup lib env rt w = (r, w1) \<Longrightarrow> net_log w1 = net_log w \<and> remote w1 = remote w"
  by (auto simp: createSafeBackup_def openDatabase_def unlinkTemp_def
      split: option.splits if_splits prod.splits)

text \<open>
  C8, as amended. With the token absent or empty: \<open>restoreFromBackup\<close> raises the
  token error at once and changes nothing; \<open>uploadBackup\<close> makes no network call and
  fails, with the token error when the local backup could be created and with the
  error of that creation otherwise; \<open>cleanupOldBackups\<close> does not fail, it returns
  normally and changes nothing; \<open>verifyLatestBackup\<close> answers false.
\<close>

theorem missing_token_handling:
  assumes "BLOB_READ_WRITE_TOKEN env = None \<or> BLOB_READ_WRITE_TOKEN env = Some []"
  shows "restoreFromBackup lib env rt filename w = (Inl TokenNotConfigured, w)
         \<and> cleanupOldBackups env rt w = (Inr (), w)
         \<and> verifyLatestBackup lib env rt w = (False, w)
         \<and> net_log (snd (uploadBackup lib env rt w)) = net_log w
         \<and> remote (snd (uploadBackup lib env rt w)) = remote w
         \<and> fst (uploadBackup lib env rt w)
             = (case fst (createSafeBackup lib env rt w) of
                  Inl e \<Rightarrow> Inl e
                | Inr made \<Rightarrow> Inl TokenNotConfigured)"
proof -
  note t = no_token [OF assms]
  obtain r1 w1 where c: "createSafeBackup lib env rt w = (r1, w1)"
    by (cases "createSafeBackup lib env rt w")
  have "uploadBackup lib env rt w
          = (case r1 of Inl e \<Rightarrow> Inl e | Inr made \<Rightarrow> Inl TokenNotConfigured, w1)"
    by (cases r1) (auto simp: uploadBackup_def c t Let_def)
  with createSafeBackup_net [OF c] c t show ?thesis
    by (simp add: restoreFromBackup_def cleanupOldBackups_def verifyLatestBackup_def)
qed

text \<open>C8 on the small instance with an empty token.\<close>

theorem missing_token_handling_witness:
  "restoreFromBackup demo_lib (demo_env\<lparr>BLOB_READ_WRITE_TOKEN := Some []\<rparr>) demo_rt None
      (demo_world []) = (Inl TokenNotConfigured, demo_world [])
   \<and> net_log (snd (uploadBackup demo_lib (demo_env\<lparr>BLOB_READ_WRITE_TOKEN := Some []\<rparr>) demo_rt
                     (demo_world []))) = []"
proof -
  have "BLOB_READ_WRITE_TOKEN (demo_env\<lparr>BLOB_READ_WRITE_TOKEN := Some []\<rparr>) = None
        \<or> BLOB_READ_WRITE_TOKEN (demo_env\<lparr>BLOB_READ_WRITE_TOKEN := Some []\<rparr>) = Some []"
    by simp
  from missing_token_handling [OF this, of demo_lib demo_rt None "demo_world []"]
  show ?thesis by (simp add: demo_world_def)
qed

text \<open>
  C8 as stated fails for the cleanup: without a token it ends normally, not with an error.
\<close>

theorem cleanup_without_token_counterexample:
  "getBlobToken (demo_env\<lparr>BLOB_READ_WRITE_TOKEN := None\<rparr>) = []
   \<and> fst (cleanupOldBackups (demo_env\<lparr>BLOB_READ_WRITE_TOKEN := None\<rparr>) demo_rt (demo_world []))
       = Inr ()"
  by (simp add: cleanupOldBackups_def getBlobToken_def)

section \<open>Retention\<close>

lemma mark_loop_acc:
  "mark_loop rt bs acc
     = acc @ concat (map (\<lambda>b. [pathname b, pathname b @ ''.meta.json''])
                      (filter (\<lambda>b. \<not> keepsBlob rt b) bs))"
  by (induction bs arbitrary: acc) auto

lemma ageDays_less: "ageDays n u < of_int k \<longleftrightarrow> n - u < k * msPerDay"
proof -
  have "ageDays n u < of_int k \<longleftrightarrow> (of_int (n - u) :: rat) < of_int k * of_int msPerDay"
    by (simp add: ageDays_def msPerDay_def pos_divide_less_eq)
  also have "\<dots> \<longleftrightarrow> n - u < k * msPerDay"
    by (simp only: of_int_mult [symmetric] of_int_less_iff)
  finally show ?thesis .
qed

lemma ageDays_thresholds:
  "ageDays n u < 7 \<longleftrightarrow> n - u < 604800000"
  "ageDays n u < 28 \<longleftrightarrow> n - u < 2419200000"
  "ageDays n u < 365 \<longleftrightarrow> n - u < 31536000000"
  using ageDays_less [of n u 7] ageDays_less [of n u 28] ageDays_less [of n u 365]
  by (simp_all add: msPerDay_def)

lemma cleanup_marks:
  assumes "getBlobToken env \<noteq> []" and "\<not> list_fails rt BACKUP_PREFIX"
  shows "cleanupOldBackups env rt w =
     (Inr (),
      delete_loop rt
        (concat (map (\<lambda>b. [pathname b, pathname b @ ''.meta.json''])
           (filter (\<lambda>b. \<not> keepsBlob rt b)
              (filter (\<lambda>b. \<not> is_meta (pathname b))
                 (filter (\<lambda>b. startsWith (pathname b) BACKUP_PREFIX) (remote w))))))
        (w\<lparr>net_log := net_log w @ [NetList BACKUP_PREFIX]\<rparr>))"
  using assms by (simp add: cleanupOldBackups_def list_blobs_def mark_loop_acc)

text \<open>
  C3. The cleanup marks, for each listed artifact on its own and in listing order, the
  artifact and its metadata name exactly when the artifact is not kept; an artifact is
  kept exactly when its age in days, from the upload time the store reported, is below
  7, or it was uploaded on a Sunday and the age is below 28, or it was uploaded on the
  first of a month and the age is below 365 (day of week and day of month in local
  time); an age below \<open>k\<close> days is a difference below \<open>k\<close> times the milliseconds of
  a day. In particular the five cases of the rule: age 3 is kept; age 10, neither a Sunday
  nor a first, is deleted; a Sunday at age 20 is kept; a first at age 40 is kept; a first
  at age 400 is deleted.
\<close>

theorem retention_classification:
  "mark_loop rt dbBlobs []
     = concat (map (\<lambda>b. [pathname b, pathname b @ ''.meta.json''])
                (filter (\<lambda>b. \<not> keepsBlob rt b) dbBlobs))
   \<and> (getBlobToken env \<noteq> [] \<and> \<not> list_fails rt BACKUP_PREFIX \<longrightarrow>
        cleanupOldBackups env rt w =
          (Inr (),
           delete_loop rt
             (concat (map (\<lambda>b. [pathname b, pathname b @ ''.meta.json''])
                (filter (\<lambda>b. \<not> keepsBlob rt b)
                   (filter (\<lambda>b. \<not> is_meta (pathname b))
                      (filter (\<lambda>b. startsWith (pathname b) BACKUP_PREFIX) (remote w))))))
             (w\<lparr>net_log := net_log w @ [NetList BACKUP_PREFIX]\<rparr>)))
   \<and> (keepsBlob rt b \<longleftrightarrow>
        ageDays (now rt) (uploadedAt b) < 7
        \<or> (getDay rt (uploadedAt b) = 0 \<and> ageDays (now rt) (uploadedAt b) < 28)
        \<or> (getDate rt (uploadedAt b) = 1 \<and> ageDays (now rt) (uploadedAt b) < 365))
   \<and> (ageDays (now rt) (uploadedAt b) < of_int k \<longleftrightarrow> now rt - uploadedAt b < k * msPerDay)
   \<and> shouldKeep 3 isWeekly isMonthly
   \<and> \<not> shouldKeep 10 False False
   \<and> shouldKeep 20 True isMonthly
   \<and> shouldKeep 40 isWeekly True
   \<and> \<not> shouldKeep 400 isWeekly True"
proof (intro conjI)
  show "mark_loop rt dbBlobs []
     = concat (map (\<lambda>b. [pathname b, pathname b @ ''.meta.json''])
                (filter (\<lambda>b. \<not> keepsBlob rt b) dbBlobs))"
    using mark_loop_acc [of rt dbBlobs "[]"] by simp
  show "getBlobToken env \<noteq> [] \<and> \<not> list_fails rt BACKUP_PREFIX \<longrightarrow>
        cleanupOldBackups env rt w =
          (Inr (),
           delete_loop rt
             (concat (map (\<lambda>b. [pathname b, pathname b @ ''.meta.json''])
                (filter (\<lambda>b. \<not> keepsBlob rt b)
                   (filter (\<lambda>b. \<not> is_meta (pathname b))
                      (filter (\<lambda>b. startsWith (pathname b) BACKUP_PREFIX) (remote w))))))
             (w\<lparr>net_log := net_log w @ [NetList BACKUP_PREFIX]\<rparr>))"
    using cleanup_marks [of env rt w] by blast
  show "keepsBlob rt b \<longleftrightarrow>
        ageDays (now rt) (uploadedAt b) < 7
        \<or> (getDay rt (uploadedAt b) = 0 \<and> ageDays (now rt) (uploadedAt b) < 28)
        \<or> (getDate rt (uploadedAt b) = 1 \<and> ageDays (now rt) (uploadedAt b) < 365)"
    by (simp add: keepsBlob_def shouldKeep_def Let_def)
  show "ageDays (now rt) (uploadedAt b) < of_int k \<longleftrightarrow> now rt - uploadedAt b < k * msPerDay"
    by (rule ageDays_less)
  show "shouldKeep 3 isWeekly isMonthly" "\<not> shouldKeep 10 False False"
    "shouldKeep 20 True isMonthly" "shouldKeep 40 isWeekly True" "\<not> shouldKeep 400 isWeekly True"
    by (simp_all add: shouldKeep_def)
qed

lemma weekdays_listed:
  "WeekDay 1773576000000 = 0" "WeekDay 1772712000000 = 4" "WeekDay 1771765200000 = 0"
  "WeekDay 1738411200000 = 6"
  by code_simp+

lemma dates_listed:
  "DateFromTime 1772712000000 = 5" "DateFromTime 1771765200000 = 22"
  "DateFromTime 1769947200000 = 1" "DateFromTime 1738411200000 = 1"
  by code_simp+

lemma demo_local_time: "getDay demo_rt t = WeekDay t" "getDate demo_rt t = DateFromTime t"
  "now demo_rt = 1773576000000"
  by (simp_all add: getDay_def getDate_def demo_rt_def)

lemma keeps_listed:
  "keepsBlob demo_rt (listed n1 1773316800000)"
  "\<not> keepsBlob demo_rt (listed n2 1772712000000)"
  "keepsBlob demo_rt (listed n3 1771765200000)"
  "keepsBlob demo_rt (listed n4 1769947200000)"
  "\<not> keepsBlob demo_rt (listed n5 1738411200000)"
  by (simp_all add: keepsBlob_def shouldKeep_def ageDays_thresholds demo_local_time
      weekdays_listed dates_listed listed_def)

lemma retention_listing_selected:
  "filter (\<lambda>b. \<not> is_meta (pathname b))
     (filter (\<lambda>b. startsWith (pathname b) BACKUP_PREFIX) retention_listing) = retention_listing"
  by (simp add: retention_listing_def listed_def is_meta_def endsWith_def startsWith_def
      BACKUP_PREFIX_def)

lemma retention_marked:
  "concat (map (\<lambda>b. [pathname b, pathname b @ ''.meta.json''])
     (filter (\<lambda>b. \<not> keepsBlob demo_rt b) retention_listing))
   = [''nanoclaw-backup/daily/2026-03-05_1772712000000.db'',
      ''nanoclaw-backup/daily/2026-03-05_1772712000000.db.meta.json'',
      ''nanoclaw-backup/daily/2025-02-01_1738411200000.db'',
      ''nanoclaw-backup/daily/2025-02-01_1738411200000.db.meta.json'']"
proof -
  have "filter (\<lambda>b. \<not> keepsBlob demo_rt b) retention_listing
          = [listed ''nanoclaw-backup/daily/2026-03-05_1772712000000.db'' 1772712000000,
             listed ''nanoclaw-backup/daily/2025-02-01_1738411200000.db'' 1738411200000]"
    by (simp add: retention_listing_def keeps_listed)
  then show ?thesis by (simp add: listed_def)
qed

lemma retention_deleted:
  "map pathname (remote (delete_loop demo_rt
      [''nanoclaw-backup/daily/2026-03-05_1772712000000.db'',
       ''nanoclaw-backup/daily/2026-03-05_1772712000000.db.meta.json'',
       ''nanoclaw-backup/daily/2025-02-01_1738411200000.db'',
       ''nanoclaw-backup/daily/2025-02-01_1738411200000.db.meta.json'']
      (retention_world\<lparr>net_log := l\<rparr>)))
   = [''nanoclaw-backup/daily/2026-03-12_1773316800000.db'',
      ''nanoclaw-backup/daily/2026-02-22_1771765200000.db'',
      ''nanoclaw-backup/daily/2026-02-01_1769947200000.db'']"
proof -
  have dl: "del_fails demo_rt = (\<lambda>p. False)"
    by (simp add: demo_rt_def)
  show ?thesis
    by (simp add: del_blob_def dl retention_world_def retention_listing_def listed_def)
qed

text \<open>
  C3 on the listing read on Sunday 2026-03-15: the object of Thursday 2026-03-05 and the
  one of 2025-02-01 are marked, each with its metadata name, and the cleanup of a store
  holding the listing leaves the other three.
\<close>

theorem retention_classification_witness:
  "mark_loop demo_rt retention_listing []
     = [''nanoclaw-backup/daily/2026-03-05_1772712000000.db'',
        ''nanoclaw-backup/daily/2026-03-05_1772712000000.db.meta.json'',
        ''nanoclaw-backup/daily/2025-02-01_1738411200000.db'',
        ''nanoclaw-backup/daily/2025-02-01_1738411200000.db.meta.json'']
   \<and> fst (cleanupOldBackups demo_env demo_rt retention_world) = Inr ()
   \<and> map pathname (remote (snd (cleanupOldBackups demo_env demo_rt retention_world)))
       = [''nanoclaw-backup/daily/2026-03-12_1773316800000.db'',
          ''nanoclaw-backup/daily/2026-02-22_1771765200000.db'',
          ''nanoclaw-backup/daily/2026-02-01_1769947200000.db'']"
proof -
  note rule = retention_classification
    [where rt = demo_rt and dbBlobs = retention_listing and env = demo_env
       and w = retention_world]
  have nf: "\<not> list_fails demo_rt BACKUP_PREFIX"
    by (simp add: demo_rt_def)
  have sel: "filter (\<lambda>b. \<not> is_meta (pathname b))
      (filter (\<lambda>b. startsWith (pathname b) BACKUP_PREFIX) (remote retention_world))
      = retention_listing"
  proof -
    have "remote retention_world = retention_listing"
      by (simp add: retention_world_def)
    then show ?thesis
      by (simp only: retention_listing_selected)
  qed
  have marks: "mark_loop demo_rt retention_listing []
     = [''nanoclaw-backup/daily/2026-03-05_1772712000000.db'',
        ''nanoclaw-backup/daily/2026-03-05_1772712000000.db.meta.json'',
        ''nanoclaw-backup/daily/2025-02-01_1738411200000.db'',
        ''nanoclaw-backup/daily/2025-02-01_1738411200000.db.meta.json'']"
    using rule [THEN conjunct1] by (simp only: retention_marked)
  have "cleanupOldBackups demo_env demo_rt retention_world =
          (Inr (),
           delete_loop demo_rt
             (concat (map (\<lambda>b. [pathname b, pathname b @ ''.meta.json''])
                (filter (\<lambda>b. \<not> keepsBlob demo_rt b)
                   (filter (\<lambda>b. \<not> is_meta (pathname b))
                      (filter (\<lambda>b. startsWith (pathname b) BACKUP_PREFIX)
                         (remote retention_world))))))
             (retention_world\<lparr>net_log := net_log retention_world @ [NetList BACKUP_PREFIX]\<rparr>))"
    using rule [THEN conjunct2, THEN conjunct1] demo_token nf by blast
  then have "cleanupOldBackups demo_env demo_rt retention_world =
          (Inr (),
           delete_loop demo_rt
             [''nanoclaw-backup/daily/2026-03-05_1772712000000.db'',
              ''nanoclaw-backup/daily/2026-03-05_1772712000000.db.meta.json'',
              ''nanoclaw-backup/daily/2025-02-01_1738411200000.db'',
              ''nanoclaw-backup/daily/2025-02-01_1738411200000.db.meta.json'']
             (retention_world\<lparr>net_log := net_log retention_world @ [NetList BACKUP_PREFIX]\<rparr>))"
    by (simp only: sel retention_marked)
  with marks show ?thesis
    by (simp only: retention_deleted fst_conv snd_conv simp_thms)
qed

section \<open>Pairing under uploads and cleanups\<close>

lemma not_meta_db: "\<not> is_meta (x @ ''.db'')"
proof
  assume "is_meta (x @ ''.db'')"
  then have "drop (length (x @ ''.db'') - length ''.meta.json'') (x @ ''.db'') = ''.meta.json''"
    by (simp add: is_meta_def endsWith_def)
  then have "last (x @ ''.db'') = last ''.meta.json''"
    by (metis last_drop list.distinct(1) drop_eq_Nil not_le)
  then show False by simp
qed

lemma backupFilename_not_meta: "\<not> is_meta (backupFilename rt)"
  unfolding backupFilename_def Let_def
  using not_meta_db [of "BACKUP_PREFIX @ ''/daily/'' @ before_T (toISOString (now rt)) @ ''_'' @ dec_int (now rt)"]
  by simp

lemma put_blob_names:
  "\<not> put_fails rt name \<Longrightarrow>
     pathname ` set (remote (snd (put_blob rt name content w))) = insert name (pathname ` set (remote w))"
  by (auto simp: put_blob_def Let_def)

lemma put_blob_failed: "put_fails rt name \<Longrightarrow> remote (snd (put_blob rt name content w)) = remote w"
  by (simp add: put_blob_def Let_def)

lemma del_blob_names:
  "pathname ` set (remote (snd (del_blob rt name w)))
     = (if del_fails rt name then pathname ` set (remote w) else pathname ` set (remote w) - {name})"
  by (auto simp: del_blob_def Let_def)

lemma delete_loop_names:
  "pathname ` set (remote (delete_loop rt ps w))
     = pathname ` set (remote w) - {p \<in> set ps. \<not> del_fails rt p}"
  by (induction ps arbitrary: w) (auto simp: del_blob_names)

lemma delete_loop_remote:
  "remote (delete_loop rt ps w)
     = fold (\<lambda>p bs. if del_fails rt p then bs else filter (\<lambda>b. pathname b \<noteq> p) bs) ps (remote w)"
  by (induction ps arbitrary: w) (simp_all add: del_blob_def Let_def)

lemma upload_artifact_put_fails:
  assumes "put_fails rt (backupFilename rt)"
  shows "remote (snd (uploadBackup lib env rt w)) = remote w"
proof -
  obtain r1 w1 where c: "createSafeBackup lib env rt w = (r1, w1)"
    by (cases "createSafeBackup lib env rt w")
  note n1 = createSafeBackup_net [OF c]
  show ?thesis
  proof (cases r1)
    case (Inl e)
    with c n1 show ?thesis by (simp add: uploadBackup_def)
  next
    case (Inr made)
    obtain buffer metadata where made: "made = (buffer, metadata)" by (cases made)
    from c Inr made n1 assms show ?thesis
      by (simp add: uploadBackup_def Let_def put_blob_def)
  qed
qed

lemma upload_names:
  assumes "splits_no_pair (Upload, rt)"
  shows "pathname ` set (remote (snd (uploadBackup lib env rt w))) = pathname ` set (remote w)
         \<or> pathname ` set (remote (snd (uploadBackup lib env rt w)))
             = insert (backupFilename rt @ ''.meta.json'')
                 (insert (backupFilename rt) (pathname ` set (remote w)))"
proof (cases "put_fails rt (backupFilename rt)")
  case True
  then show ?thesis
    by (simp add: upload_artifact_put_fails)
next
  case ok1: False
  with assms have ok2: "\<not> put_fails rt (backupFilename rt @ ''.meta.json'')"
    by auto
  obtain r1 w1 where c: "createSafeBackup lib env rt w = (r1, w1)"
    by (cases "createSafeBackup lib env rt w")
  note n1 = createSafeBackup_net [OF c]
  show ?thesis
  proof (cases r1)
    case (Inl e)
    with c n1 show ?thesis by (simp add: uploadBackup_def)
  next
    case (Inr made)
    obtain buffer metadata where made: "made = (buffer, metadata)" by (cases made)
    show ?thesis
    proof (cases "getBlobToken env = []")
      case True
      with c n1 Inr made show ?thesis by (simp add: uploadBackup_def Let_def)
    next
      case False
      obtain r2 w2 where p1: "put_blob rt (backupFilename rt) buffer w1 = (r2, w2)"
        by (cases "put_blob rt (backupFilename rt) buffer w1")
      have r2: "r2 = Inr ()"
        using p1 ok1 by (auto simp: put_blob_def Let_def)
      have n2: "pathname ` set (remote w2) = insert (backupFilename rt) (pathname ` set (remote w))"
        using put_blob_names [OF ok1, of buffer w1] p1 n1 by simp
      have "uploadBackup lib env rt w
              = put_blob rt (backupFilename rt @ ''.meta.json'') (json_stringify lib metadata) w2"
        using c Inr made False p1 r2 by (simp add: uploadBackup_def Let_def)
      then show ?thesis
        using put_blob_names [OF ok2, of _ w2] n2 by simp
    qed
  qed
qed

lemma upload_keeps_paired:
  assumes "paired (remote w)" and "splits_no_pair (Upload, rt)"
  shows "paired (remote (snd (uploadBackup lib env rt w)))"
proof -
  from upload_names [OF assms(2), of lib env w]
  show ?thesis
  proof
    assume "pathname ` set (remote (snd (uploadBackup lib env rt w))) = pathname ` set (remote w)"
    with assms(1) show ?thesis by (simp add: paired_def)
  next
    assume n: "pathname ` set (remote (snd (uploadBackup lib env rt w)))
             = insert (backupFilename rt @ ''.meta.json'')
                 (insert (backupFilename rt) (pathname ` set (remote w)))"
    show ?thesis
      unfolding paired_def n
    proof (intro allI impI)
      fix p assume p: "\<not> is_meta p"
      have a: "p \<noteq> backupFilename rt @ ''.meta.json''"
        using p is_meta_append by metis
      have b: "p @ ''.meta.json'' \<noteq> backupFilename rt"
        using backupFilename_not_meta [of rt] is_meta_append by metis
      from assms(1) p have "p \<in> pathname ` set (remote w)
          \<longleftrightarrow> p @ ''.meta.json'' \<in> pathname ` set (remote w)"
        by (simp add: paired_def)
      with a b show "p \<in> insert (backupFilename rt @ ''.meta.json'')
                 (insert (backupFilename rt) (pathname ` set (remote w)))
          \<longleftrightarrow> p @ ''.meta.json'' \<in> insert (backupFilename rt @ ''.meta.json'')
                 (insert (backupFilename rt) (pathname ` set (remote w)))"
        by auto
    qed
  qed
qed

lemma marked_names:
  assumes "list_all (\<lambda>b. \<not> is_meta (pathname b)) bs" and "\<not> is_meta p"
  shows "p \<in> set (mark_loop rt bs []) \<longleftrightarrow> p @ ''.meta.json'' \<in> set (mark_loop rt bs [])"
proof -
  let ?D = "filter (\<lambda>b. \<not> keepsBlob rt b) bs"
  have D: "\<forall>d \<in> set ?D. \<not> is_meta (pathname d)"
    using assms(1) by (simp add: list_all_iff)
  have s: "set (mark_loop rt bs []) = pathname ` set ?D \<union> (\<lambda>d. pathname d @ ''.meta.json'') ` set ?D"
    unfolding mark_loop_acc by auto
  have "p \<in> set (mark_loop rt bs []) \<longleftrightarrow> p \<in> pathname ` set ?D"
    unfolding s using assms(2) is_meta_append by auto
  moreover have "p @ ''.meta.json'' \<in> set (mark_loop rt bs []) \<longleftrightarrow> p \<in> pathname ` set ?D"
  proof -
    have "p @ ''.meta.json'' \<notin> pathname ` set ?D"
    proof
      assume "p @ ''.meta.json'' \<in> pathname ` set ?D"
      then obtain d where "d \<in> set ?D" and "pathname d = p @ ''.meta.json''"
        by auto
      with D is_meta_append [of p] show False
        by metis
    qed
    moreover have "p @ ''.meta.json'' \<in> (\<lambda>d. pathname d @ ''.meta.json'') ` set ?D
                     \<longleftrightarrow> p \<in> pathname ` set ?D"
      by (auto simp: image_iff)
    ultimately show ?thesis
      unfolding s by blast
  qed
  ultimately show ?thesis by simp
qed

lemma cleanup_keeps_paired:
  assumes "paired (remote w)" and "splits_no_pair (Cleanup, rt)"
  shows "paired (remote (snd (cleanupOldBackups env rt w)))"
proof (cases "getBlobToken env = [] \<or> list_fails rt BACKUP_PREFIX")
  case True
  then have "remote (snd (cleanupOldBackups env rt w)) = remote w"
    by (auto simp: cleanupOldBackups_def list_blobs_def)
  with assms(1) show ?thesis by simp
next
  case False
  let ?bs = "filter (\<lambda>b. \<not> is_meta (pathname b))
               (filter (\<lambda>b. startsWith (pathname b) BACKUP_PREFIX) (remote w))"
  let ?T = "{p \<in> set (mark_loop rt ?bs []). \<not> del_fails rt p}"
  have "snd (cleanupOldBackups env rt w)
          = delete_loop rt (mark_loop rt ?bs []) (w\<lparr>net_log := net_log w @ [NetList BACKUP_PREFIX]\<rparr>)"
    using False by (simp add: cleanupOldBackups_def list_blobs_def)
  then have n: "pathname ` set (remote (snd (cleanupOldBackups env rt w)))
                  = pathname ` set (remote w) - ?T"
    using delete_loop_names by simp
  have nm: "list_all (\<lambda>b. \<not> is_meta (pathname b)) ?bs"
    by (simp add: list_all_iff)
  show ?thesis
    unfolding paired_def n
  proof (intro allI impI)
    fix p assume p: "\<not> is_meta p"
    from assms(2) p have alike: "del_fails rt p = del_fails rt (p @ ''.meta.json'')"
      by simp
    from assms(1) p have "p \<in> pathname ` set (remote w)
        \<longleftrightarrow> p @ ''.meta.json'' \<in> pathname ` set (remote w)"
      by (simp add: paired_def)
    with marked_names [OF nm p, of rt] alike
    show "p \<in> pathname ` set (remote w) - ?T
        \<longleftrightarrow> p @ ''.meta.json'' \<in> pathname ` set (remote w) - ?T"
      by blast
  qed
qed

text \<open>
  C6, as amended. Every sequence of uploads and cleanups, failing calls included, keeps
  the pairing (an artifact is stored exactly when its metadata object is), as long as no
  upload has the put of its metadata fail when the put of its artifact does not, and no
  cleanup has the delete of an artifact and the delete of its metadata not fail alike.
\<close>

theorem pairing_without_split_failures:
  assumes "paired (remote w)" and "list_all splits_no_pair ops"
  shows "paired (remote (run_ops lib env ops w))"
  using assms
proof (induction lib env ops w rule: run_ops.induct)
  case (1 lib env w)
  then show ?case by simp
next
  case (2 lib env rt ops w)
  then show ?case by (simp add: upload_keeps_paired del: splits_no_pair.simps)
next
  case (3 lib env rt ops w)
  then show ?case by (simp add: cleanup_keeps_paired del: splits_no_pair.simps)
qed

lemma two_pairs_paired:
  assumes "\<not> is_meta a" and "\<not> is_meta b"
  shows "paired [listed a t1, listed (a @ ''.meta.json'') t2, listed b t3,
                 listed (b @ ''.meta.json'') t4]"
  unfolding paired_def
proof (intro allI impI)
  fix p assume p: "\<not> is_meta p"
  have 1: "p \<noteq> a @ ''.meta.json''" "p \<noteq> b @ ''.meta.json''"
    using p is_meta_append by metis+
  have 2: "p @ ''.meta.json'' \<noteq> a" "p @ ''.meta.json'' \<noteq> b"
    using assms is_meta_append by metis+
  from 1 2 show "p \<in> pathname ` set [listed a t1, listed (a @ ''.meta.json'') t2, listed b t3,
                 listed (b @ ''.meta.json'') t4]
      \<longleftrightarrow> p @ ''.meta.json'' \<in> pathname ` set [listed a t1, listed (a @ ''.meta.json'') t2,
                 listed b t3, listed (b @ ''.meta.json'') t4]"
    by (auto simp: listed_def)
qed

lemma pair_world_paired: "paired (remote pair_world)"
  using two_pairs_paired
    [of "''nanoclaw-backup/daily/2026-03-12_1773316800000.db''"
        "''nanoclaw-backup/daily/2025-02-01_1738411200000.db''"
        1773316800000 1773316800000 1738411200000 1738411200000]
  by (simp add: pair_world_def is_meta_def endsWith_def)

lemma pair_world_marked:
  "mark_loop demo_rt
     (filter (\<lambda>b. \<not> is_meta (pathname b))
        (filter (\<lambda>b. startsWith (pathname b) BACKUP_PREFIX) (remote pair_world))) []
   = [''nanoclaw-backup/daily/2025-02-01_1738411200000.db'',
      ''nanoclaw-backup/daily/2025-02-01_1738411200000.db.meta.json'']"
proof -
  have "filter (\<lambda>b. \<not> is_meta (pathname b))
          (filter (\<lambda>b. startsWith (pathname b) BACKUP_PREFIX) (remote pair_world))
        = [listed ''nanoclaw-backup/daily/2026-03-12_1773316800000.db'' 1773316800000,
           listed ''nanoclaw-backup/daily/2025-02-01_1738411200000.db'' 1738411200000]"
    by (simp add: pair_world_def listed_def is_meta_def endsWith_def startsWith_def
        BACKUP_PREFIX_def)
  then show ?thesis
    by (simp add: keeps_listed) (simp add: listed_def)
qed

lemma pair_world_cleanup:
  assumes "remote w = remote pair_world" and "tz rt = tz demo_rt" and "now rt = now demo_rt"
    and "\<not> list_fails rt BACKUP_PREFIX"
  shows "remote (snd (cleanupOldBackups demo_env rt w))
     = fold (\<lambda>p bs. if del_fails rt p then bs else filter (\<lambda>b. pathname b \<noteq> p) bs)
         [''nanoclaw-backup/daily/2025-02-01_1738411200000.db'',
          ''nanoclaw-backup/daily/2025-02-01_1738411200000.db.meta.json'']
         (remote pair_world)"
proof -
  have k: "keepsBlob rt = keepsBlob demo_rt"
    by (rule ext) (simp add: keepsBlob_def getDay_def getDate_def assms)
  have m: "mark_loop rt bs [] = mark_loop demo_rt bs []" for bs
    by (simp add: mark_loop_acc k)
  have "snd (cleanupOldBackups demo_env rt w)
          = delete_loop rt
              (mark_loop rt
                 (filter (\<lambda>b. \<not> is_meta (pathname b))
                    (filter (\<lambda>b. startsWith (pathname b) BACKUP_PREFIX) (remote w))) [])
              (w\<lparr>net_log := net_log w @ [NetList BACKUP_PREFIX]\<rparr>)"
    using assms(4) demo_token
    by (simp add: cleanupOldBackups_def list_blobs_def del: filter_filter)
  then have "remote (snd (cleanupOldBackups demo_env rt w))
          = fold (\<lambda>p bs. if del_fails rt p then bs else filter (\<lambda>b. pathname b \<noteq> p) bs)
              (mark_loop demo_rt
                 (filter (\<lambda>b. \<not> is_meta (pathname b))
                    (filter (\<lambda>b. startsWith (pathname b) BACKUP_PREFIX) (remote w))) [])
              (remote w)"
    by (simp add: delete_loop_remote m del: filter_filter)
  then show ?thesis
    by (simp only: assms(1) pair_world_marked)
qed

text \<open>
  C6 on the small instance, from the store with two pairs: an upload whose puts all
  fail, then a cleanup that deletes the pair of 2025-02-01. The pairing holds and the
  recent pair is what remains.
\<close>

theorem pairing_without_split_failures_witness:
  "paired (remote (run_ops demo_lib demo_env
             [(Upload, demo_rt\<lparr>put_fails := (\<lambda>p. True)\<rparr>), (Cleanup, demo_rt)] pair_world))
   \<and> map pathname (remote (run_ops demo_lib demo_env
             [(Upload, demo_rt\<lparr>put_fails := (\<lambda>p. True)\<rparr>), (Cleanup, demo_rt)] pair_world))
     = [''nanoclaw-backup/daily/2026-03-12_1773316800000.db'',
        ''nanoclaw-backup/daily/2026-03-12_1773316800000.db.meta.json'']"
proof
  have "list_all splits_no_pair [(Upload, demo_rt\<lparr>put_fails := (\<lambda>p. True)\<rparr>), (Cleanup, demo_rt)]"
    by (simp add: demo_rt_def)
  with pair_world_paired
  show "paired (remote (run_ops demo_lib demo_env
          [(Upload, demo_rt\<lparr>put_fails := (\<lambda>p. True)\<rparr>), (Cleanup, demo_rt)] pair_world))"
    by (rule pairing_without_split_failures)
  let ?w1 = "snd (uploadBackup demo_lib demo_env (demo_rt\<lparr>put_fails := (\<lambda>p. True)\<rparr>) pair_world)"
  have r1: "remote ?w1 = remote pair_world"
    by (rule upload_artifact_put_fails) simp
  have nl: "\<not> list_fails demo_rt BACKUP_PREFIX" and df: "del_fails demo_rt = (\<lambda>p. False)"
    by (simp_all add: demo_rt_def)
  have "remote (snd (cleanupOldBackups demo_env demo_rt ?w1))
     = fold (\<lambda>p bs. if del_fails demo_rt p then bs else filter (\<lambda>b. pathname b \<noteq> p) bs)
         [''nanoclaw-backup/daily/2025-02-01_1738411200000.db'',
          ''nanoclaw-backup/daily/2025-02-01_1738411200000.db.meta.json'']
         (remote pair_world)"
    using r1 nl by (rule pair_world_cleanup [OF _ refl refl])
  then show "map pathname (remote (run_ops demo_lib demo_env
             [(Upload, demo_rt\<lparr>put_fails := (\<lambda>p. True)\<rparr>), (Cleanup, demo_rt)] pair_world))
     = [''nanoclaw-backup/daily/2026-03-12_1773316800000.db'',
        ''nanoclaw-backup/daily/2026-03-12_1773316800000.db.meta.json'']"
    by (simp add: df pair_world_def listed_def)
qed

lemma demo_vacuum_db: "vacuum_into demo_lib demo_db = Some demo_db"
  by (simp add: demo_lib_def demo_vacuum_def demo_db_def ascii_def)

lemma demo_capture:
  "fst (createSafeBackup demo_lib demo_env rt empty_world)
     = encodeBackup demo_lib demo_env rt demo_db"
proof -
  have "openDatabase demo_env empty_world = (demo_db, empty_world)"
    by (simp add: openDatabase_def empty_world_def)
  moreover have "files empty_world (backupPath demo_env) = None"
    by (simp add: empty_world_def dbPath_def backupPath_def)
  ultimately show ?thesis
    by (simp add: createSafeBackup_def demo_vacuum_db)
qed

lemma demo_encode:
  "length (random16 rt) = 16 \<Longrightarrow> \<exists>made. encodeBackup demo_lib demo_env rt demo_db = Inr made"
  using decrypt_encrypt [OF demo_contract demo_key_length, of "random16 rt" "gzip9 demo_lib demo_db"]
  by (auto simp: encodeBackup_def Let_def)

lemma upload_meta_put_fails:
  assumes "length (random16 rt) = 16"
    and "\<not> put_fails rt (backupFilename rt)"
    and "put_fails rt (backupFilename rt @ ''.meta.json'')"
  shows "pathname ` set (remote (snd (uploadBackup demo_lib demo_env rt empty_world)))
           = {backupFilename rt}"
proof -
  from demo_encode [OF assms(1)] obtain buffer metadata where
    e: "encodeBackup demo_lib demo_env rt demo_db = Inr (buffer, metadata)"
    by auto
  obtain r1 w1 where c: "createSafeBackup demo_lib demo_env rt empty_world = (r1, w1)"
    by (cases "createSafeBackup demo_lib demo_env rt empty_world")
  have r1: "r1 = Inr (buffer, metadata)"
    using demo_capture [of rt] c e by simp
  have w1: "remote w1 = []"
    using createSafeBackup_net [OF c] by (simp add: empty_world_def)
  obtain r2 w2 where p1: "put_blob rt (backupFilename rt) buffer w1 = (r2, w2)"
    by (cases "put_blob rt (backupFilename rt) buffer w1")
  have r2: "r2 = Inr ()"
    using p1 assms(2) by (auto simp: put_blob_def Let_def)
  have n2: "pathname ` set (remote w2) = {backupFilename rt}"
    using put_blob_names [OF assms(2), of buffer w1] p1 w1 by simp
  have "uploadBackup demo_lib demo_env rt empty_world
          = put_blob rt (backupFilename rt @ ''.meta.json'') (json_stringify demo_lib metadata) w2"
    using c r1 p1 r2 demo_token by (simp add: uploadBackup_def Let_def)
  then show ?thesis
    using put_blob_failed [OF assms(3), of _ w2] n2 by simp
qed

text \<open>
  C6 as stated fails, in both operations. When the put of the metadata fails after the
  put of the artifact succeeded, the store holds the artifact without its metadata; and
  when in a cleanup the delete of the metadata fails after the delete of the artifact
  succeeded, the store holds the metadata without its artifact.
\<close>

theorem pairing_broken_by_split_failure_counterexample:
  "paired (remote empty_world)
   \<and> \<not> paired (remote (snd (uploadBackup demo_lib demo_env (demo_rt\<lparr>put_fails := is_meta\<rparr>)
                               empty_world)))
   \<and> paired (remote pair_world)
   \<and> \<not> paired (remote (snd (cleanupOldBackups demo_env (demo_rt\<lparr>del_fails := is_meta\<rparr>)
                               pair_world)))"
proof (intro conjI)
  let ?rt = "demo_rt\<lparr>put_fails := is_meta\<rparr>"
  show "paired (remote empty_world)"
    by (simp add: paired_def empty_world_def)
  show "\<not> paired (remote (snd (uploadBackup demo_lib demo_env ?rt empty_world)))"
  proof -
    have "length (random16 ?rt) = 16"
      by (simp add: demo_rt_def)
    moreover have "\<not> put_fails ?rt (backupFilename ?rt)"
      using backupFilename_not_meta by simp
    moreover have "put_fails ?rt (backupFilename ?rt @ ''.meta.json'')"
      using is_meta_append by simp
    ultimately have n: "pathname ` set (remote (snd (uploadBackup demo_lib demo_env ?rt empty_world)))
        = {backupFilename ?rt}"
      by (rule upload_meta_put_fails)
    show ?thesis
      unfolding paired_def n
      using backupFilename_not_meta [of ?rt] by (auto simp del: select_convs)
  qed
  show "paired (remote pair_world)"
    by (rule pair_world_paired)
  let ?rd = "demo_rt\<lparr>del_fails := is_meta\<rparr>"
  show "\<not> paired (remote (snd (cleanupOldBackups demo_env ?rd pair_world)))"
  proof -
    have nl: "\<not> list_fails ?rd BACKUP_PREFIX"
      by (simp add: demo_rt_def)
    have "remote (snd (cleanupOldBackups demo_env ?rd pair_world))
       = fold (\<lambda>p bs. if del_fails ?rd p then bs else filter (\<lambda>b. pathname b \<noteq> p) bs)
           [''nanoclaw-backup/daily/2025-02-01_1738411200000.db'',
            ''nanoclaw-backup/daily/2025-02-01_1738411200000.db.meta.json'']
           (remote pair_world)"
      using nl by (intro pair_world_cleanup) simp_all
    then have n: "map pathname (remote (snd (cleanupOldBackups demo_env ?rd pair_world)))
       = [''nanoclaw-backup/daily/2026-03-12_1773316800000.db'',
          ''nanoclaw-backup/daily/2026-03-12_1773316800000.db.meta.json'',
          ''nanoclaw-backup/daily/2025-02-01_1738411200000.db.meta.json'']"
      by (simp add: pair_world_def listed_def is_meta_def endsWith_def)
    have s: "pathname ` set (remote (snd (cleanupOldBackups demo_env ?rd pair_world)))
       = {''nanoclaw-backup/daily/2026-03-12_1773316800000.db'',
          ''nanoclaw-backup/daily/2026-03-12_1773316800000.db.meta.json'',
          ''nanoclaw-backup/daily/2025-02-01_1738411200000.db.meta.json''}"
      using arg_cong [OF n, of set] by simp
    have nm: "\<not> is_meta ''nanoclaw-backup/daily/2025-02-01_1738411200000.db''"
      by (simp add: is_meta_def endsWith_def)
    show ?thesis
      unfolding paired_def s
      using nm by (auto intro!: exI [of _ "''nanoclaw-backup/daily/2025-02-01_1738411200000.db''"])
  qed
qed

end
